theory Spec2Isabelle
  imports Complex_Main
begin

section \<open>Vectors and matrices\<close>

text \<open>
  The node works on the vectors and matrices of the host's \<^verbatim>\<open>mathutils\<close> module.
  Coordinates are modelled as real numbers: a \<^verbatim>\<open>Vector\<close> of three components is a
  triple, a 4x4 \<^verbatim>\<open>Matrix\<close> is four rows of four entries. The arithmetic is exact:
  the rounding of the host's floating-point operations is outside this model. The
  rounding of the coordinates that the mesh stores has a section of its own below.
\<close>

type_synonym vec3 = "real \<times> real \<times> real"
type_synonym vec4 = "real \<times> real \<times> real \<times> real"
type_synonym mat3 = "vec3 \<times> vec3 \<times> vec3"
type_synonym mat4 = "vec4 \<times> vec4 \<times> vec4 \<times> vec4"

datatype error =
    IndexError
  | ValueError
  | TypeError
  | KeyError
  | InvalidTopology
  | EmptyMaskError

definition ebind :: "error + 'a \<Rightarrow> ('a \<Rightarrow> error + 'b) \<Rightarrow> error + 'b" where
  "ebind r k = (case r of Inl e \<Rightarrow> Inl e | Inr x \<Rightarrow> k x)"

fun vx :: "vec3 \<Rightarrow> real" where "vx (x, y, z) = x"
fun vy :: "vec3 \<Rightarrow> real" where "vy (x, y, z) = y"
fun vz :: "vec3 \<Rightarrow> real" where "vz (x, y, z) = z"

fun vadd :: "vec3 \<Rightarrow> vec3 \<Rightarrow> vec3" where
  "vadd (a, b, c) (x, y, z) = (a + x, b + y, c + z)"

fun vscale :: "vec3 \<Rightarrow> real \<Rightarrow> vec3" where
  "vscale (x, y, z) k = (x * k, y * k, z * k)"

fun dot :: "vec3 \<Rightarrow> vec3 \<Rightarrow> real" where
  "dot (a, b, c) (x, y, z) = a * x + b * y + c * z"

fun cross :: "vec3 \<Rightarrow> vec3 \<Rightarrow> vec3" where
  "cross (a, b, c) (x, y, z) = (b * z - c * y, c * x - a * z, a * y - b * x)"

definition vlength :: "vec3 \<Rightarrow> real" where
  "vlength v = sqrt (dot v v)"

text \<open>\<^verbatim>\<open>Vector.normalized()\<close>: the zero vector is returned as it is.\<close>

definition normalized :: "vec3 \<Rightarrow> vec3" where
  "normalized v = (if vlength v = 0 then (0, 0, 0) else vscale v (1 / vlength v))"

text \<open>\<^verbatim>\<open>Matrix()\<close> is the 4x4 identity.\<close>

definition Matrix_identity :: mat4 where
  "Matrix_identity = ((1, 0, 0, 0), (0, 1, 0, 0), (0, 0, 1, 0), (0, 0, 0, 1))"

text \<open>\<^verbatim>\<open>Matrix.Rotation(angle, 4, 'X')\<close>.\<close>

definition Matrix_Rotation_X :: "real \<Rightarrow> mat4" where
  "Matrix_Rotation_X t =
     ((1, 0, 0, 0), (0, cos t, - sin t, 0), (0, sin t, cos t, 0), (0, 0, 0, 1))"

text \<open>\<^verbatim>\<open>Matrix.Translation(v)\<close>.\<close>

fun Matrix_Translation :: "vec3 \<Rightarrow> mat4" where
  "Matrix_Translation (x, y, z) =
     ((1, 0, 0, x), (0, 1, 0, y), (0, 0, 1, z), (0, 0, 0, 1))"

text \<open>
  \<^verbatim>\<open>Matrix(list([*zip(x_axis[:], y_axis[:], z_axis[:])]))\<close>: the rows of the 3x3 matrix
  are the triples of the zip, so the three vectors are its columns.
\<close>

fun Matrix_zip :: "vec3 \<Rightarrow> vec3 \<Rightarrow> vec3 \<Rightarrow> mat3" where
  "Matrix_zip (x0, x1, x2) (y0, y1, y2) (z0, z1, z2) =
     ((x0, y0, z0), (x1, y1, z1), (x2, y2, z2))"

fun to_4x4 :: "mat3 \<Rightarrow> mat4" where
  "to_4x4 ((a, b, c), (d, e, f), (g, h, i)) =
     ((a, b, c, 0), (d, e, f, 0), (g, h, i, 0), (0, 0, 0, 1))"

fun row_col :: "vec4 \<Rightarrow> vec4 \<Rightarrow> real" where
  "row_col (a, b, c, d) (x, y, z, w) = a * x + b * y + c * z + d * w"

fun col0 :: "mat4 \<Rightarrow> vec4" where
  "col0 ((a0, a1, a2, a3), (b0, b1, b2, b3), (c0, c1, c2, c3), (d0, d1, d2, d3)) = (a0, b0, c0, d0)"
fun col1 :: "mat4 \<Rightarrow> vec4" where
  "col1 ((a0, a1, a2, a3), (b0, b1, b2, b3), (c0, c1, c2, c3), (d0, d1, d2, d3)) = (a1, b1, c1, d1)"
fun col2 :: "mat4 \<Rightarrow> vec4" where
  "col2 ((a0, a1, a2, a3), (b0, b1, b2, b3), (c0, c1, c2, c3), (d0, d1, d2, d3)) = (a2, b2, c2, d2)"
fun col3 :: "mat4 \<Rightarrow> vec4" where
  "col3 ((a0, a1, a2, a3), (b0, b1, b2, b3), (c0, c1, c2, c3), (d0, d1, d2, d3)) = (a3, b3, c3, d3)"

text \<open>The matrix product \<^verbatim>\<open>A @ B\<close>.\<close>

fun matmul :: "mat4 \<Rightarrow> mat4 \<Rightarrow> mat4" where
  "matmul (r0, r1, r2, r3) B =
     ((row_col r0 (col0 B), row_col r0 (col1 B), row_col r0 (col2 B), row_col r0 (col3 B)),
      (row_col r1 (col0 B), row_col r1 (col1 B), row_col r1 (col2 B), row_col r1 (col3 B)),
      (row_col r2 (col0 B), row_col r2 (col1 B), row_col r2 (col2 B), row_col r2 (col3 B)),
      (row_col r3 (col0 B), row_col r3 (col1 B), row_col r3 (col2 B), row_col r3 (col3 B)))"

fun det3 :: "mat3 \<Rightarrow> real" where
  "det3 ((a, b, c), (d, e, f), (g, h, i)) =
     a * (e * i - f * h) - b * (d * i - f * g) + c * (d * h - e * g)"

fun determinant :: "mat4 \<Rightarrow> real" where
  "determinant ((a0, a1, a2, a3), (b0, b1, b2, b3), (c0, c1, c2, c3), (d0, d1, d2, d3)) =
     a0 * det3 ((b1, b2, b3), (c1, c2, c3), (d1, d2, d3))
     - a1 * det3 ((b0, b2, b3), (c0, c2, c3), (d0, d2, d3))
     + a2 * det3 ((b0, b1, b3), (c0, c1, c3), (d0, d1, d3))
     - a3 * det3 ((b0, b1, b2), (c0, c1, c2), (d0, d1, d2))"

fun adjugate :: "mat4 \<Rightarrow> mat4" where
  "adjugate ((a0, a1, a2, a3), (b0, b1, b2, b3), (c0, c1, c2, c3), (d0, d1, d2, d3)) =
     ((det3 ((b1, b2, b3), (c1, c2, c3), (d1, d2, d3)),
       - det3 ((a1, a2, a3), (c1, c2, c3), (d1, d2, d3)),
       det3 ((a1, a2, a3), (b1, b2, b3), (d1, d2, d3)),
       - det3 ((a1, a2, a3), (b1, b2, b3), (c1, c2, c3))),
      (- det3 ((b0, b2, b3), (c0, c2, c3), (d0, d2, d3)),
       det3 ((a0, a2, a3), (c0, c2, c3), (d0, d2, d3)),
       - det3 ((a0, a2, a3), (b0, b2, b3), (d0, d2, d3)),
       det3 ((a0, a2, a3), (b0, b2, b3), (c0, c2, c3))),
      (det3 ((b0, b1, b3), (c0, c1, c3), (d0, d1, d3)),
       - det3 ((a0, a1, a3), (c0, c1, c3), (d0, d1, d3)),
       det3 ((a0, a1, a3), (b0, b1, b3), (d0, d1, d3)),
       - det3 ((a0, a1, a3), (b0, b1, b3), (c0, c1, c3))),
      (- det3 ((b0, b1, b2), (c0, c1, c2), (d0, d1, d2)),
       det3 ((a0, a1, a2), (c0, c1, c2), (d0, d1, d2)),
       - det3 ((a0, a1, a2), (b0, b1, b2), (d0, d1, d2)),
       det3 ((a0, a1, a2), (b0, b1, b2), (c0, c1, c2))))"

fun row_div :: "vec4 \<Rightarrow> real \<Rightarrow> vec4" where
  "row_div (a, b, c, d) k = (a / k, b / k, c / k, d / k)"

fun mat_div :: "mat4 \<Rightarrow> real \<Rightarrow> mat4" where
  "mat_div (r0, r1, r2, r3) k = (row_div r0 k, row_div r1 k, row_div r2 k, row_div r3 k)"

text \<open>
  \<^verbatim>\<open>Matrix.inverted()\<close> raises \<^verbatim>\<open>ValueError\<close> on a matrix whose determinant is zero and
  returns the adjugate divided by the determinant otherwise.
\<close>

definition inverted :: "mat4 \<Rightarrow> error + mat4" where
  "inverted M =
     (if determinant M = 0 then Inl ValueError else Inr (mat_div (adjugate M) (determinant M)))"

text \<open>A matrix applied to a point (the point is given the fourth coordinate 1).\<close>

fun mat_apply :: "mat4 \<Rightarrow> vec3 \<Rightarrow> vec3" where
  "mat_apply (r0, r1, r2, r3) (x, y, z) =
     (row_col r0 (x, y, z, 1), row_col r1 (x, y, z, 1), row_col r2 (x, y, z, 1))"

section \<open>The local frame of a face\<close>

text \<open>
  Lines 222 to 229 of \<^verbatim>\<open>process\<close>: the rotation \<^verbatim>\<open>m_r\<close> built from the face normal.
\<close>

definition x_axis_of :: "vec3 \<Rightarrow> vec3" where
  "x_axis_of z_axis = normalized (vy z_axis * (- 1), vx z_axis, 0)"

definition y_axis_of :: "vec3 \<Rightarrow> vec3" where
  "y_axis_of z_axis = normalized (cross z_axis (x_axis_of z_axis))"

definition frame_rotation :: "vec3 \<Rightarrow> mat4" where
  "frame_rotation normal =
     (if vx normal = 0 \<and> vy normal = 0
      then (if vz normal \<ge> 0 then Matrix_identity else Matrix_Rotation_X pi)
      else to_4x4 (Matrix_zip (x_axis_of normal) (y_axis_of normal) normal))"

text \<open>Lines 232 to 234: \<^verbatim>\<open>space = (translation @ m_r).inverted()\<close>.\<close>

definition frame_space :: "vec3 \<Rightarrow> vec3 \<Rightarrow> error + mat4" where
  "frame_space normal center = inverted (matmul (Matrix_Translation center) (frame_rotation normal))"

section \<open>Broadcasting of parameter lists\<close>

text \<open>
  Modelled from the spec: \<^verbatim>\<open>fullList\<close> of \<^verbatim>\<open>sverchok.data_structure\<close> is not among the
  source files. The spec (Mask Resolver): if the list is shorter than the count, the last
  element of the list is repeated to fill; this fails with \<^verbatim>\<open>EmptyMaskError\<close> if the list
  is empty and the count is positive. A list that is long enough is left as it is.
\<close>

definition fullList :: "'a list \<Rightarrow> nat \<Rightarrow> error + 'a list" where
  "fullList l count =
     (if length l < count
      then (if l = [] then Inl EmptyMaskError
            else Inr (l @ replicate (count - length l) (last l)))
      else Inr l)"

section \<open>The mesh kernel\<close>

text \<open>
  The editable mesh of the host (\<^verbatim>\<open>bmesh\<close>) is modelled as an indexed mesh: the list of
  vertex positions and the list of faces. A face holds its loop of vertex indices
  (\<^verbatim>\<open>face.verts\<close>, with \<^verbatim>\<open>v.index\<close> the position of the vertex in the mesh) and the value
  of the integer face layer \<^verbatim>\<open>'mask'\<close>. A face object of the program is the index of the
  face in the face list. Edges are computed by the kernel alone and no property below
  reads them, so they are left out of the mesh.
\<close>

record face =
  f_verts :: "nat list"
  f_mask :: int

record bmesh =
  bm_verts :: "vec3 list"
  bm_faces :: "face list"

definition MASK :: int where "MASK = 0"
definition OUT :: int where "OUT = 1"
definition IN :: int where "IN = 2"

definition MASK_MEANING :: "int \<Rightarrow> string option" where
  "MASK_MEANING = [MASK \<mapsto> ''mask'', OUT \<mapsto> ''out'', IN \<mapsto> ''in'']"

text \<open>
  Modelled from the spec: \<^verbatim>\<open>bmesh_from_pydata\<close> of \<^verbatim>\<open>sverchok.utils.sv_bmesh_utils\<close> is not
  among the source files. The spec (Mesh Builder): vertices in input order, faces
  referencing those indices; fails with \<^verbatim>\<open>InvalidTopology\<close> if an edge or a face
  references an out-of-range vertex index; no other validation.
\<close>

definition bmesh_from_pydata ::
  "vec3 list \<Rightarrow> (nat \<times> nat) list \<Rightarrow> nat list list \<Rightarrow> error + bmesh" where
  "bmesh_from_pydata verts edges faces =
     (if list_all (\<lambda>e. fst e < length verts \<and> snd e < length verts) edges
         \<and> list_all (list_all (\<lambda>v. v < length verts)) faces
      then Inr \<lparr>bm_verts = verts, bm_faces = map (\<lambda>f. \<lparr>f_verts = f, f_mask = 0\<rparr>) faces\<rparr>
      else Inl InvalidTopology)"

text \<open>\<^verbatim>\<open>bm.faces.layers.int.new('mask')\<close>: a new integer layer holds 0 on every face.\<close>

definition layers_int_new :: "bmesh \<Rightarrow> bmesh" where
  "layers_int_new bm = bm\<lparr>bm_faces := map (\<lambda>f. f\<lparr>f_mask := 0\<rparr>) (bm_faces bm)\<rparr>"

text \<open>
  Modelled from the spec: \<^verbatim>\<open>fill_faces_layer\<close> of \<^verbatim>\<open>sverchok.utils.sv_bmesh_utils\<close> is not
  among the source files. The call is \<^verbatim>\<open>fill_faces_layer(bm, masks, 'mask', int, OUT)\<close>;
  by the spec (Mask Resolver, Result Classifier) the faces paired with a truthy mask
  value receive the tag and a face whose resolved mask is 0 keeps the value \<^verbatim>\<open>MASK\<close>.
\<close>

fun fill_layer :: "face list \<Rightarrow> int list \<Rightarrow> int \<Rightarrow> face list" where
  "fill_layer (f # fs) (m # ms) v = (if m \<noteq> 0 then f\<lparr>f_mask := v\<rparr> else f) # fill_layer fs ms v"
| "fill_layer fs ms v = fs"

definition fill_faces_layer :: "bmesh \<Rightarrow> int list \<Rightarrow> int \<Rightarrow> bmesh" where
  "fill_faces_layer bm face_mask v = bm\<lparr>bm_faces := fill_layer (bm_faces bm) face_mask v\<rparr>"

text \<open>
  Modelled from the spec: \<^verbatim>\<open>bmesh.ops.extrude_discrete_faces\<close> belongs to the host. The
  spec (Discrete Extruder): each selected face is replaced by a duplicate ring of new
  vertices, side faces connecting the old boundary to the new ring and a cap face on
  the new ring; the caps are returned, one per selected face, in the same order;
  selected faces share no new geometry. The new faces carry the layer value of the
  face they come from. Faces that are not selected stay in the mesh, in front of the
  new faces.
\<close>

definition side_faces :: "face \<Rightarrow> nat list \<Rightarrow> face list" where
  "side_faces f ring =
     (let k = length (f_verts f)
      in map (\<lambda>j. f\<lparr>f_verts := [f_verts f ! (Suc j mod k), ring ! (Suc j mod k),
                                ring ! j, f_verts f ! j]\<rparr>) [0..<k])"

definition extrude_step :: "bmesh \<times> nat list \<Rightarrow> face \<Rightarrow> bmesh \<times> nat list" where
  "extrude_step st f =
     (let bm = fst st;
          base = length (bm_verts bm);
          ring = [base..<base + length (f_verts f)];
          cap = f\<lparr>f_verts := ring\<rparr>
      in (bm\<lparr>bm_verts := bm_verts bm @ map (\<lambda>v. bm_verts bm ! v) (f_verts f),
              bm_faces := bm_faces bm @ cap # side_faces f ring\<rparr>,
          snd st @ [length (bm_faces bm)]))"

definition extrude_discrete_faces :: "bmesh \<Rightarrow> nat list \<Rightarrow> bmesh \<times> nat list" where
  "extrude_discrete_faces bm sel =
     (let orig = bm_faces bm;
          kept = map (\<lambda>i. orig ! i) (filter (\<lambda>i. i \<notin> set sel) [0..<length orig])
      in foldl extrude_step (bm\<lparr>bm_faces := kept\<rparr>, []) (map (\<lambda>i. orig ! i) sel))"

text \<open>
  \<^verbatim>\<open>face.normal\<close> is computed by the kernel from the positions of the face's vertices;
  the function that does it is the parameter \<open>nrm\<close> of the model.
  \<^verbatim>\<open>face.calc_center_median()\<close> is the mean of the positions.
\<close>

definition face_coords :: "bmesh \<Rightarrow> nat \<Rightarrow> vec3 list" where
  "face_coords bm face = map (\<lambda>v. bm_verts bm ! v) (f_verts (bm_faces bm ! face))"

definition face_normal :: "(vec3 list \<Rightarrow> vec3) \<Rightarrow> bmesh \<Rightarrow> nat \<Rightarrow> vec3" where
  "face_normal nrm bm face = nrm (face_coords bm face)"

definition calc_center_median :: "bmesh \<Rightarrow> nat \<Rightarrow> vec3" where
  "calc_center_median bm face =
     (let cs = face_coords bm face
      in if cs = [] then (0, 0, 0)
         else vscale (foldl vadd (0, 0, 0) cs) (1 / real (length cs)))"

text \<open>
  Modelled from the spec: \<^verbatim>\<open>bmesh.ops.transform\<close>, \<^verbatim>\<open>scale\<close> and \<^verbatim>\<open>translate\<close> belong to
  the host. The spec (Per-Face Transformer): with a reference frame \<open>space\<close> the vertices
  are transformed into the local space, the matrix is applied, and they are
  transformed back; scaling applies the diagonal matrix of the vector, translation
  adds the vector in world space. A reference frame without an inverse is an error of
  the model.
\<close>

definition transform_verts :: "mat4 \<Rightarrow> nat list \<Rightarrow> vec3 list \<Rightarrow> vec3 list" where
  "transform_verts M vs co = foldl (\<lambda>co v. co[v := mat_apply M (co ! v)]) co vs"

definition bmesh_ops_transform ::
  "bmesh \<Rightarrow> mat4 \<Rightarrow> mat4 option \<Rightarrow> nat list \<Rightarrow> error + bmesh" where
  "bmesh_ops_transform bm matrix space verts =
     (case space of
        None \<Rightarrow> Inr (bm\<lparr>bm_verts := transform_verts matrix verts (bm_verts bm)\<rparr>)
      | Some s \<Rightarrow>
          ebind (inverted s) (\<lambda>si.
            Inr (bm\<lparr>bm_verts :=
                   transform_verts (matmul (matmul si matrix) s) verts (bm_verts bm)\<rparr>)))"

fun Matrix_Diagonal :: "vec3 \<Rightarrow> mat4" where
  "Matrix_Diagonal (x, y, z) = ((x, 0, 0, 0), (0, y, 0, 0), (0, 0, z, 0), (0, 0, 0, 1))"

definition bmesh_ops_scale :: "bmesh \<Rightarrow> vec3 \<Rightarrow> mat4 \<Rightarrow> nat list \<Rightarrow> error + bmesh" where
  "bmesh_ops_scale bm vec space verts =
     bmesh_ops_transform bm (Matrix_Diagonal vec) (Some space) verts"

definition bmesh_ops_translate :: "bmesh \<Rightarrow> nat list \<Rightarrow> vec3 \<Rightarrow> error + bmesh" where
  "bmesh_ops_translate bm verts vec =
     bmesh_ops_transform bm (Matrix_Translation vec) None verts"

text \<open>
  Modelled from the spec: \<^verbatim>\<open>pydata_from_bmesh\<close> of \<^verbatim>\<open>sverchok.utils.sv_bmesh_utils\<close> is not
  among the source files. The spec (Flattener): the vertices in mesh order and the faces
  as loops of vertex indices, in mesh order.
\<close>

definition pydata_from_bmesh :: "bmesh \<Rightarrow> vec3 list \<times> nat list list" where
  "pydata_from_bmesh bm = (bm_verts bm, map f_verts (bm_faces bm))"

section \<open>The node\<close>

datatype extrude_modes = NORMAL | MATRIX

datatype mask_modes = NOEXTRUDE | NOTRANSFORM

record node =
  extrude_mode :: extrude_modes
  mask_mode :: mask_modes
  mask_out_type :: "string set"
  height_prop :: real
  scale_prop :: real

text \<open>
  A value of the Scale input is a number, or a vector when the socket is fed by a
  vertices socket.
\<close>

datatype scale_val = Num real | Vec vec3

text \<open>
  \<^verbatim>\<open>get_out_mask\<close>: the caps are tagged \<^verbatim>\<open>IN\<close>, then every face of the mesh gives 1 if
  the name of its tag is in \<^verbatim>\<open>mask_out_type\<close> and 0 otherwise. A tag that is no key of
  \<^verbatim>\<open>MASK_MEANING\<close> raises \<^verbatim>\<open>KeyError\<close>.
\<close>

fun emap :: "('a \<Rightarrow> error + 'b) \<Rightarrow> 'a list \<Rightarrow> error + 'b list" where
  "emap g [] = Inr []"
| "emap g (x # xs) = ebind (g x) (\<lambda>y. ebind (emap g xs) (\<lambda>ys. Inr (y # ys)))"

definition tag_in :: "face list \<Rightarrow> nat list \<Rightarrow> face list" where
  "tag_in fs extruded_faces = foldl (\<lambda>fs i. fs[i := (fs ! i)\<lparr>f_mask := IN\<rparr>]) fs extruded_faces"

definition mask_value :: "string set \<Rightarrow> face \<Rightarrow> error + int" where
  "mask_value out_type f =
     (case MASK_MEANING (f_mask f) of
        None \<Rightarrow> Inl KeyError
      | Some name \<Rightarrow> Inr (if name \<in> out_type then 1 else 0))"

definition get_out_mask :: "node \<Rightarrow> bmesh \<Rightarrow> nat list \<Rightarrow> error + int list" where
  "get_out_mask self bm extruded_faces =
     emap (mask_value (mask_out_type self)) (tag_in (bm_faces bm) extruded_faces)"

text \<open>Lines 205 to 208: the faces handed to the extrusion.\<close>

definition faces_to_extrude :: "node \<Rightarrow> bmesh \<Rightarrow> int list \<Rightarrow> nat list" where
  "faces_to_extrude self bm masks =
     (if mask_mode self = NOEXTRUDE
      then map fst (filter (\<lambda>(face, mask). mask \<noteq> 0) (zip [0..<length (bm_faces bm)] masks))
      else [0..<length (bm_faces bm)])"

text \<open>Lines 212 to 215: the caps paired with their parameters.\<close>

definition face_data ::
  "node \<Rightarrow> nat list \<Rightarrow> int list \<Rightarrow> real list \<Rightarrow> scale_val list \<Rightarrow> mat4 list
     \<Rightarrow> (nat \<times> real \<times> scale_val \<times> mat4) list" where
  "face_data self extruded_faces masks heights scales matrixes =
     (if mask_mode self = NOEXTRUDE
      then zip extruded_faces (zip heights (zip scales matrixes))
      else map (\<lambda>(face, mask, height, scale, matrix). (face, height, scale, matrix))
             (filter (\<lambda>(face, mask, height, scale, matrix). mask \<noteq> 0)
                (zip extruded_faces (zip masks (zip heights (zip scales matrixes))))))"

text \<open>Line 219: \<^verbatim>\<open>vec = scale if vector_in else (scale, scale, scale)\<close>, checked by the
  scale operation, which takes a vector of three numbers.\<close>

definition scale_vec :: "bool \<Rightarrow> scale_val \<Rightarrow> error + vec3" where
  "scale_vec vector_in scale =
     (case scale of
        Num s \<Rightarrow> if vector_in then Inl TypeError else Inr (s, s, s)
      | Vec v \<Rightarrow> if vector_in then Inr v else Inl TypeError)"

text \<open>Lines 217 to 241: the body of the loop over \<^verbatim>\<open>face_data\<close>, without the append.\<close>

definition transform_face ::
  "node \<Rightarrow> bool \<Rightarrow> (vec3 list \<Rightarrow> vec3) \<Rightarrow> bmesh \<Rightarrow> nat \<times> real \<times> scale_val \<times> mat4
     \<Rightarrow> error + bmesh" where
  "transform_face self vector_in nrm bm fd =
     (case fd of (face, height, scale, matrix) \<Rightarrow>
        let normal = face_normal nrm bm face;
            dr = vscale normal height;
            center = calc_center_median bm face;
            verts = f_verts (bm_faces bm ! face)
        in ebind (frame_space normal center) (\<lambda>space.
             if extrude_mode self = NORMAL
             then ebind (scale_vec vector_in scale) (\<lambda>vec.
                  ebind (bmesh_ops_scale bm vec space verts) (\<lambda>bm1.
                    bmesh_ops_translate bm1 verts dr))
             else bmesh_ops_transform bm matrix (Some space) verts))"

text \<open>The loop; \<open>collect\<close> is \<^verbatim>\<open>linked_extruded_polygons or linked_other_polygons\<close>.\<close>

fun transform_loop ::
  "node \<Rightarrow> bool \<Rightarrow> (vec3 list \<Rightarrow> vec3) \<Rightarrow> bool \<Rightarrow> (nat \<times> real \<times> scale_val \<times> mat4) list
     \<Rightarrow> bmesh \<times> nat list list \<Rightarrow> error + bmesh \<times> nat list list" where
  "transform_loop self vector_in nrm collect [] st = Inr st"
| "transform_loop self vector_in nrm collect (fd # fds) st =
     ebind (transform_face self vector_in nrm (fst st) fd) (\<lambda>bm.
       transform_loop self vector_in nrm collect fds
         (bm, if collect then snd st @ [f_verts (bm_faces bm ! fst fd)] else snd st))"

record item_result =
  new_vertices :: "vec3 list"
  new_faces :: "nat list list"
  new_extruded_faces :: "nat list list"
  new_other_faces :: "nat list list"
  new_mask :: "int list option"

text \<open>Which outputs are consumed; the Mask output may be missing from the node.\<close>

record outputs_linked =
  Vertices_linked :: bool
  Edges_linked :: bool
  Polygons_linked :: bool
  ExtrudedPolys_linked :: bool
  OtherPolys_linked :: bool
  Mask_linked :: "bool option"

definition need_mask_out :: "outputs_linked \<Rightarrow> bool" where
  "need_mask_out outs = (case Mask_linked outs of None \<Rightarrow> False | Some l \<Rightarrow> l)"

text \<open>Lines 195 to 198: the four parameter lists are filled to the number of faces.\<close>

definition resolve_lists ::
  "nat \<Rightarrow> int list \<Rightarrow> real list \<Rightarrow> scale_val list \<Rightarrow> mat4 list
     \<Rightarrow> error + (int list \<times> real list \<times> scale_val list \<times> mat4 list)" where
  "resolve_lists n masks heights scales matrixes =
     ebind (fullList heights n) (\<lambda>heights'.
     ebind (fullList scales n) (\<lambda>scales'.
     ebind (fullList matrixes n) (\<lambda>matrixes'.
     ebind (fullList masks n) (\<lambda>masks'.
       Inr (masks', heights', scales', matrixes')))))"

text \<open>Lines 200 to 203: the mesh with its mask layer.\<close>

definition tagged_mesh ::
  "vec3 list \<Rightarrow> (nat \<times> nat) list \<Rightarrow> nat list list \<Rightarrow> int list \<Rightarrow> error + bmesh" where
  "tagged_mesh vertices edges faces masks =
     ebind (bmesh_from_pydata vertices edges faces) (\<lambda>bm.
       Inr (fill_faces_layer (layers_int_new bm) masks OUT))"

text \<open>Lines 193 to 259: the body of the loop over the batch, for one mesh.\<close>

definition process_item ::
  "node \<Rightarrow> bool \<Rightarrow> (vec3 list \<Rightarrow> vec3) \<Rightarrow> outputs_linked
     \<Rightarrow> vec3 list \<Rightarrow> (nat \<times> nat) list \<Rightarrow> nat list list
     \<Rightarrow> int list \<Rightarrow> real list \<Rightarrow> scale_val list \<Rightarrow> mat4 list
     \<Rightarrow> error + item_result" where
  "process_item self vector_in nrm outs vertices edges faces masks0 heights0 scales0 matrixes0 =
     ebind (resolve_lists (length faces) masks0 heights0 scales0 matrixes0)
       (\<lambda>(masks, heights, scales, matrixes).
     ebind (tagged_mesh vertices edges faces masks) (\<lambda>bm0.
       let ex = extrude_discrete_faces bm0 (faces_to_extrude self bm0 masks);
           extruded_faces = snd ex;
           fd = face_data self extruded_faces masks heights scales matrixes;
           collect = (ExtrudedPolys_linked outs \<or> OtherPolys_linked outs)
       in ebind (transform_loop self vector_in nrm collect fd (fst ex, [])) (\<lambda>(bm, extruded).
            let pydata = pydata_from_bmesh bm;
                other = (if OtherPolys_linked outs
                         then filter (\<lambda>f. f \<notin> set extruded) (snd pydata) else [])
            in ebind (if need_mask_out outs
                      then ebind (get_out_mask self bm extruded_faces) (\<lambda>m. Inr (Some m))
                      else Inr None) (\<lambda>mask_out.
                 Inr \<lparr>new_vertices = fst pydata, new_faces = snd pydata,
                      new_extruded_faces = extruded, new_other_faces = other,
                      new_mask = mask_out\<rparr>))))"

section \<open>The batch\<close>

text \<open>
  An input socket that is not linked is \<open>None\<close>. The Scale socket gives the identifier of
  the socket that feeds it along with the data. The Matrix input may be missing from the
  node, and its data may be a list of matrices or a list of lists of matrices.
\<close>

datatype matrix_data = Flat "mat4 list" | Nested "mat4 list list"

record inputs =
  Vertices_in :: "vec3 list list option"
  Edges_in :: "(nat \<times> nat) list list option"
  Polygons_in :: "nat list list list option"
  Mask_in :: "int list list option"
  Height_in :: "real list list option"
  Scale_in :: "(string \<times> scale_val list list) option"
  Matrix_in :: "matrix_data option option"

record node_outputs =
  Vertices_out :: "vec3 list list"
  Polygons_out :: "nat list list list"
  ExtrudedPolys_out :: "nat list list list"
  OtherPolys_out :: "nat list list list"
  Mask_out :: "int list list option"

definition scale_socket_type :: "inputs \<Rightarrow> bool" where
  "scale_socket_type ins =
     (case Scale_in ins of
        None \<Rightarrow> False
      | Some (bl_idname, d) \<Rightarrow> bl_idname = ''SvVerticesSocket'')"

definition sv_get :: "'a option \<Rightarrow> 'a \<Rightarrow> 'a" where
  "sv_get socket dflt = (case socket of None \<Rightarrow> dflt | Some d \<Rightarrow> d)"

text \<open>Lines 171 to 177: the data of the Matrix input as a list of lists.\<close>

definition matrixes_of :: "inputs \<Rightarrow> error + mat4 list list" where
  "matrixes_of ins =
     (case (case Matrix_in ins of
              None \<Rightarrow> Nested [[Matrix_identity]]
            | Some socket \<Rightarrow> sv_get socket (Nested [[Matrix_identity]])) of
        Flat [] \<Rightarrow> Inl IndexError
      | Flat (m # ms) \<Rightarrow> Inr [m # ms]
      | Nested [] \<Rightarrow> Inl IndexError
      | Nested (ms # mss) \<Rightarrow> Inr (ms # mss))"

text \<open>
  Modelled from the spec: \<^verbatim>\<open>match_long_repeat\<close> of \<^verbatim>\<open>sverchok.data_structure\<close> is not among
  the source files. The spec (Batch): all sequences are extended to the same length, the
  longest one, by repeating the last element; an empty sequence where a non-empty one is
  required is a failure. The result is given as the list of the tuples, which is what
  \<^verbatim>\<open>zip(*meshes)\<close> makes of it.
\<close>

definition match_long_repeat ::
  "'a list \<Rightarrow> 'b list \<Rightarrow> 'c list \<Rightarrow> 'd list \<Rightarrow> 'e list \<Rightarrow> 'f list \<Rightarrow> 'g list
     \<Rightarrow> error + ('a \<times> 'b \<times> 'c \<times> 'd \<times> 'e \<times> 'f \<times> 'g) list" where
  "match_long_repeat a b c d e f g =
     (let n = max (length a) (max (length b) (max (length c) (max (length d)
                (max (length e) (max (length f) (length g))))))
      in ebind (fullList a n) (\<lambda>a'. ebind (fullList b n) (\<lambda>b'. ebind (fullList c n) (\<lambda>c'.
         ebind (fullList d n) (\<lambda>d'. ebind (fullList e n) (\<lambda>e'. ebind (fullList f n) (\<lambda>f'.
         ebind (fullList g n) (\<lambda>g'.
           Inr (zip a' (zip b' (zip c' (zip d' (zip e' (zip f' g'))))))))))))))"

definition any_linked :: "outputs_linked \<Rightarrow> bool" where
  "any_linked outs =
     (Vertices_linked outs \<or> Edges_linked outs \<or> Polygons_linked outs
      \<or> ExtrudedPolys_linked outs \<or> OtherPolys_linked outs
      \<or> (case Mask_linked outs of None \<Rightarrow> False | Some l \<Rightarrow> l))"

text \<open>
  \<^verbatim>\<open>process\<close>. The result \<open>Inr None\<close> is the return at lines 157 and 159, before any input
  is read and with no output set.
\<close>

definition process ::
  "node \<Rightarrow> (vec3 list \<Rightarrow> vec3) \<Rightarrow> inputs \<Rightarrow> outputs_linked \<Rightarrow> error + node_outputs option" where
  "process self nrm ins outs =
     (case (Vertices_in ins, Polygons_in ins) of
        (Some vertices_s, Some faces_s) \<Rightarrow>
          if \<not> any_linked outs then Inr None
          else
            let vector_in = scale_socket_type ins;
                edges_s = sv_get (Edges_in ins) [[]];
                masks_s = sv_get (Mask_in ins) [[1]];
                heights_s = sv_get (Height_in ins) [[height_prop self]];
                scales_s = (case Scale_in ins of
                              None \<Rightarrow> [[Num (scale_prop self)]]
                            | Some (bl_idname, d) \<Rightarrow> d)
            in ebind (matrixes_of ins) (\<lambda>matrixes_s.
               ebind (match_long_repeat vertices_s edges_s faces_s masks_s heights_s
                        scales_s matrixes_s) (\<lambda>meshes.
               ebind (emap (\<lambda>(vertices, edges, faces, masks, heights, scales, matrixes).
                              process_item self vector_in nrm outs vertices edges faces
                                masks heights scales matrixes) meshes) (\<lambda>results.
                 Inr (Some \<lparr>Vertices_out = map new_vertices results,
                            Polygons_out = map new_faces results,
                            ExtrudedPolys_out = map new_extruded_faces results,
                            OtherPolys_out = map new_other_faces results,
                            Mask_out = (if need_mask_out outs
                                        then Some (map (\<lambda>r. case new_mask r of
                                                            None \<Rightarrow> [] | Some m \<Rightarrow> m) results)
                                        else None)\<rparr>))))
      | _ \<Rightarrow> Inr None)"

section \<open>The storage of coordinates\<close>

text \<open>
  Modelled from the spec: \<^verbatim>\<open>bmesh_from_pydata\<close> is not among the source files, and the
  spec's Mesh Builder gives the order of the vertices, not the precision in which the mesh
  keeps them. The vertices of the input are Python floats; the host's mesh keeps each
  coordinate of a vertex as an IEEE 754 single-precision number, so a coordinate handed to
  \<^verbatim>\<open>bm.verts.new\<close>, which \<^verbatim>\<open>bmesh_from_pydata\<close> calls for every vertex, is rounded to
  the nearest such number, a tie going to the even significand. A single-precision number
  is a multiple of \<open>2 powi e\<close> by an integer below \<open>2 ^ 24\<close>, with \<open>e\<close> not below -149.
  Coordinates beyond the range of single precision, which the mesh keeps as infinities,
  are outside the model. The arithmetic of the definitions above stays exact:
  \<open>process_item_single\<close> is the node on the coordinates as they are stored.
\<close>

definition round_half_even :: "real \<Rightarrow> int" where
  "round_half_even y =
     (let f = \<lfloor>y\<rfloor>; d = y - of_int f
      in if d < 1 / 2 then f else if d > 1 / 2 then f + 1 else if even f then f else f + 1)"

definition single_exponent :: "real \<Rightarrow> int" where
  "single_exponent x = max (\<lfloor>log 2 \<bar>x\<bar>\<rfloor> - 23) (- 149)"

definition single_precision :: "real \<Rightarrow> real" where
  "single_precision x =
     (if x = 0 then 0
      else of_int (round_half_even (x / 2 powi single_exponent x)) * 2 powi single_exponent x)"






section \<open>Auxiliary notions for the statements\<close>

text \<open>A matrix is affine when its last row is \<open>(0, 0, 0, 1)\<close>.\<close>

definition affine :: "mat4 \<Rightarrow> bool" where
  "affine M = (case M of (r0, r1, r2, r3) \<Rightarrow> r3 = (0, 0, 0, 1))"

text \<open>
  The input face that each face of the extruded mesh comes from: a face that was not
  selected is itself, the cap and the side faces of a selected face come from that face.
\<close>

definition face_origins :: "nat list list \<Rightarrow> nat list \<Rightarrow> nat list" where
  "face_origins faces sel =
     filter (\<lambda>i. i \<notin> set sel) [0..<length faces]
     @ concat (map (\<lambda>i. replicate (Suc (length (faces ! i))) i) sel)"

section \<open>Example inputs\<close>

text \<open>A unit square split into two triangles, lying in the plane z = 0.\<close>

definition ex_vertices :: "vec3 list" where
  "ex_vertices = [(0, 0, 0), (1, 0, 0), (1, 1, 0), (0, 1, 0)]"

definition ex_faces :: "nat list list" where
  "ex_faces = [[0, 1, 2], [0, 2, 3]]"

definition ex_normal :: "vec3 list \<Rightarrow> vec3" where
  "ex_normal cs = (0, 0, 1)"

definition ex_node :: "mask_modes \<Rightarrow> node" where
  "ex_node mm = \<lparr>extrude_mode = NORMAL, mask_mode = mm, mask_out_type = {''out''},
                 height_prop = 0, scale_prop = 1\<rparr>"

definition ex_outs :: outputs_linked where
  "ex_outs = \<lparr>Vertices_linked = True, Edges_linked = True, Polygons_linked = True,
              ExtrudedPolys_linked = True, OtherPolys_linked = True, Mask_linked = Some True\<rparr>"

text \<open>
  The mesh of the example with the mask [1, 0] on its mask layer, and the results of the
  node on the example: in NOEXTRUDE mode with height 0 and scale 1, and in NOTRANSFORM
  mode with height 1 and scale 2.
\<close>

definition ex_bm0 :: bmesh where
  "ex_bm0 = \<lparr>bm_verts = ex_vertices,
             bm_faces = [\<lparr>f_verts = [0, 1, 2], f_mask = 1\<rparr>, \<lparr>f_verts = [0, 2, 3], f_mask = 0\<rparr>]\<rparr>"

definition ex_result_noextrude :: item_result where
  "ex_result_noextrude =
     \<lparr>new_vertices = [(0, 0, 0), (1, 0, 0), (1, 1, 0), (0, 1, 0), (0, 0, 0), (1, 0, 0), (1, 1, 0)],
      new_faces = [[0, 2, 3], [4, 5, 6], [1, 5, 4, 0], [2, 6, 5, 1], [0, 4, 6, 2]],
      new_extruded_faces = [[4, 5, 6]],
      new_other_faces = [[0, 2, 3], [1, 5, 4, 0], [2, 6, 5, 1], [0, 4, 6, 2]],
      new_mask = Some [0, 0, 1, 1, 1]\<rparr>"

definition ex_result_notransform :: item_result where
  "ex_result_notransform =
     \<lparr>new_vertices = [(0, 0, 0), (1, 0, 0), (1, 1, 0), (0, 1, 0),
                      (- (2 / 3), - (1 / 3), 1), (4 / 3, - (1 / 3), 1), (4 / 3, 5 / 3, 1),
                      (0, 0, 0), (1, 1, 0), (0, 1, 0)],
      new_faces = [[4, 5, 6], [1, 5, 4, 0], [2, 6, 5, 1], [0, 4, 6, 2],
                   [7, 8, 9], [2, 8, 7, 0], [3, 9, 8, 2], [0, 7, 9, 3]],
      new_extruded_faces = [[4, 5, 6]],
      new_other_faces = [[1, 5, 4, 0], [2, 6, 5, 1], [0, 4, 6, 2],
                         [7, 8, 9], [2, 8, 7, 0], [3, 9, 8, 2], [0, 7, 9, 3]],
      new_mask = Some [0, 1, 1, 1, 0, 0, 0, 0]\<rparr>"



section \<open>Matrix algebra\<close>



lemma det_adjugate_affine:
  "determinant (adjugate ((a0, a1, a2, a3), (b0, b1, b2, b3), (c0, c1, c2, c3), (0, 0, 0, 1)))
   = (determinant ((a0, a1, a2, a3), (b0, b1, b2, b3), (c0, c1, c2, c3), (0, 0, 0, 1)))^3"
  by (simp add: algebra_simps power3_eq_cube)

lemma det_mat_div: "determinant (mat_div M k) = determinant M / k^4"
proof -
  obtain a0 a1 a2 a3 b0 b1 b2 b3 c0 c1 c2 c3 d0 d1 d2 d3 where
    M: "M = ((a0, a1, a2, a3), (b0, b1, b2, b3), (c0, c1, c2, c3), (d0, d1, d2, d3))"
    by (metis prod_cases4)
  show ?thesis
  proof (cases "k = 0")
    case True then show ?thesis unfolding M by simp
  next
    case False then show ?thesis unfolding M
      by (simp add: field_simps power4_eq_xxxx)
  qed
qed

lemma mat4_cases:
  obtains a0 a1 a2 a3 b0 b1 b2 b3 c0 c1 c2 c3 d0 d1 d2 d3 where
    "M = ((a0, a1, a2, a3), (b0, b1, b2, b3), (c0, c1, c2, c3), (d0::real, d1::real, d2::real, d3::real))"
  by (metis prod_cases4)





lemma affine_inverse_det:
  assumes "affine M" and "determinant M \<noteq> 0"
  shows "determinant (mat_div (adjugate M) (determinant M)) \<noteq> 0"
proof -
  obtain a0 a1 a2 a3 b0 b1 b2 b3 c0 c1 c2 c3 where
    M: "M = ((a0, a1, a2, a3), (b0, b1, b2, b3), (c0, c1, c2, c3), (0, 0, 0, 1))"
    using assms(1) by (cases M rule: mat4_cases) (simp add: affine_def)
  have "determinant (adjugate M) = (determinant M)^3"
    unfolding M by (rule det_adjugate_affine)
  then show ?thesis using assms(2) by (simp add: det_mat_div)
qed

lemma det_frame_generic:
  "determinant (matmul (Matrix_Translation c) (to_4x4 (Matrix_zip x y z))) = dot z (cross x y)"
  by (cases c, cases x, cases y, cases z) (simp add: algebra_simps)

lemma affine_frame_generic:
  "affine (matmul (Matrix_Translation c) (to_4x4 A))"
  by (cases c, cases A rule: prod_cases3, auto simp: affine_def)

lemma lagrange: "dot n (cross x (cross n x)) = dot n n * dot x x - (dot x n)^2"
  by (cases n, cases x) (simp add: algebra_simps power2_eq_square)

lemma vlength_pos_iff: "vlength v \<noteq> 0 \<longleftrightarrow> v \<noteq> (0, 0, 0)"
proof (cases v)
  case (fields a b c)
  have "a * a + b * b + c * c = 0 \<longleftrightarrow> a = 0 \<and> b = 0 \<and> c = 0"
    by (metis add_nonneg_eq_0_iff mult_eq_0_iff zero_le_square add_nonneg_nonneg)
  then show ?thesis by (simp add: fields vlength_def)
qed

lemma cross_vscale: "cross a (vscale b k) = vscale (cross a b) k"
  by (cases a, cases b) (simp add: algebra_simps)

lemma dot_vscale: "dot a (vscale b k) = dot a b * k"
  by (cases a, cases b) (simp add: algebra_simps)

lemma dot_vscale_left: "dot (vscale b k) a = dot b a * k"
  by (cases a, cases b) (simp add: algebra_simps)

lemma dot_self_vlength: "dot v v = (vlength v)^2"
proof (cases v)
  case (fields a b c)
  then show ?thesis by (simp add: vlength_def)
qed

lemma frame_axes_det:
  assumes "vx n \<noteq> 0 \<or> vy n \<noteq> 0"
  shows "dot n (cross (x_axis_of n) (y_axis_of n)) \<noteq> 0"
proof -
  obtain a b c where n: "n = (a, b, c)" by (cases n)
  define u where "u = (- b, a, 0::real)"
  have ab: "a \<noteq> 0 \<or> b \<noteq> 0" using assms by (simp add: n)
  then have u0: "vlength u \<noteq> 0" by (auto simp: vlength_pos_iff u_def)
  define s where "s = 1 / vlength u"
  have s0: "s \<noteq> 0" using u0 by (simp add: s_def)
  have x: "x_axis_of n = vscale u s"
    using u0 by (simp add: x_axis_of_def normalized_def n u_def s_def)
  have "dot (vscale u s) (vscale u s) = dot u u * s * s"
    by (simp only: dot_vscale dot_vscale_left)
  also have "\<dots> = (vlength u)^2 * s * s" by (simp only: dot_self_vlength)
  also have "\<dots> = 1" using u0 by (simp add: s_def power2_eq_square)
  finally have xx: "dot (vscale u s) (vscale u s) = 1" .
  have xn: "dot (vscale u s) n = 0"
    by (simp add: dot_vscale_left u_def n)
  define w where "w = cross n (vscale u s)"
  have "vz w = (a * a + b * b) * s" by (simp add: w_def n u_def algebra_simps)
  moreover have "a * a + b * b \<noteq> 0" using ab
    by (metis add_nonneg_eq_0_iff mult_eq_0_iff zero_le_square)
  ultimately have "vz w \<noteq> 0" using s0 by simp
  then have w0: "vlength w \<noteq> 0" by (cases w) (auto simp: vlength_pos_iff)
  have y: "y_axis_of n = vscale w (1 / vlength w)"
    using w0 by (simp add: y_axis_of_def normalized_def x w_def)
  have nn: "dot n n \<noteq> 0" using ab dot_self_vlength[of n] vlength_pos_iff[of n] by (auto simp: n)
  have "dot n (cross (x_axis_of n) (y_axis_of n)) = dot n (cross (vscale u s) w) * (1 / vlength w)"
    by (simp add: x y cross_vscale dot_vscale)
  also have "dot n (cross (vscale u s) w) = dot n n"
    unfolding w_def lagrange xx xn by simp
  finally show ?thesis using nn w0 by simp
qed

lemma frame_matrix_props:
  "affine (matmul (Matrix_Translation c) (frame_rotation n))"
  "determinant (matmul (Matrix_Translation c) (frame_rotation n)) \<noteq> 0"
proof -
  show "affine (matmul (Matrix_Translation c) (frame_rotation n))"
  proof (cases "vx n = 0 \<and> vy n = 0")
    case True
    then show ?thesis
      by (cases c) (simp add: frame_rotation_def Matrix_identity_def Matrix_Rotation_X_def affine_def)
  next
    case False
    then show ?thesis by (auto simp: frame_rotation_def affine_frame_generic)
  qed
  show "determinant (matmul (Matrix_Translation c) (frame_rotation n)) \<noteq> 0"
  proof (cases "vx n = 0 \<and> vy n = 0")
    case True
    then show ?thesis
      by (cases c) (simp add: frame_rotation_def Matrix_identity_def Matrix_Rotation_X_def)
  next
    case False
    then show ?thesis
      using frame_axes_det[of n] by (auto simp: frame_rotation_def det_frame_generic)
  qed
qed

lemma frame_space_succeeds:
  obtains S Si where "frame_space n c = Inr S" "inverted S = Inr Si"
proof -
  let ?M = "matmul (Matrix_Translation c) (frame_rotation n)"
  let ?S = "mat_div (adjugate ?M) (determinant ?M)"
  have d: "determinant ?M \<noteq> 0" by (rule frame_matrix_props)
  then have 1: "frame_space n c = Inr ?S" by (simp add: frame_space_def inverted_def)
  have "determinant ?S \<noteq> 0"
    using frame_matrix_props(1) d by (rule affine_inverse_det)
  then have "inverted ?S = Inr (mat_div (adjugate ?S) (determinant ?S))"
    by (simp add: inverted_def)
  with 1 show ?thesis using that by blast
qed

section \<open>The transform step\<close>

lemma ebind_Inr_iff: "ebind r k = Inr y \<longleftrightarrow> (\<exists>x. r = Inr x \<and> k x = Inr y)"
  by (cases r) (simp_all add: ebind_def)

lemma ebind_Inr [simp]: "ebind (Inr x) k = k x"
  by (simp add: ebind_def)

lemma ebind_Inl [simp]: "ebind (Inl e) k = Inl e"
  by (simp add: ebind_def)

lemma length_transform_verts: "length (transform_verts M vs co) = length co"
  unfolding transform_verts_def by (induction vs arbitrary: co) simp_all

lemma transform_verts_other: "v \<notin> set vs \<Longrightarrow> transform_verts M vs co ! v = co ! v"
  unfolding transform_verts_def by (induction vs arbitrary: co) auto

lemma bmesh_ops_transform_frame:
  assumes "bmesh_ops_transform bm M sp vs = Inr bm'"
  shows "bm_faces bm' = bm_faces bm" "length (bm_verts bm') = length (bm_verts bm)"
    "v \<notin> set vs \<Longrightarrow> bm_verts bm' ! v = bm_verts bm ! v"
  using assms
  by (auto simp: bmesh_ops_transform_def ebind_Inr_iff length_transform_verts
      transform_verts_other split: option.splits)

lemma transform_face_frame:
  assumes "transform_face self vector_in nrm bm fd = Inr bm'"
  shows "bm_faces bm' = bm_faces bm" "length (bm_verts bm') = length (bm_verts bm)"
    "v \<notin> set (f_verts (bm_faces bm ! fst fd)) \<Longrightarrow> bm_verts bm' ! v = bm_verts bm ! v"
proof -
  obtain face height scale matrix where fd: "fd = (face, height, scale, matrix)"
    by (cases fd) auto
  let ?vs = "f_verts (bm_faces bm ! face)"
  have "bm_faces bm' = bm_faces bm \<and> length (bm_verts bm') = length (bm_verts bm)
      \<and> (v \<notin> set ?vs \<longrightarrow> bm_verts bm' ! v = bm_verts bm ! v)"
  proof (cases "extrude_mode self = NORMAL")
    case True
    with assms obtain space vec bm1 where
      1: "bmesh_ops_scale bm vec space ?vs = Inr bm1" and
      2: "bmesh_ops_translate bm1 ?vs (vscale (face_normal nrm bm face) height) = Inr bm'"
      by (auto simp: transform_face_def fd ebind_Inr_iff Let_def)
    from 1 have a: "bm_faces bm1 = bm_faces bm" "length (bm_verts bm1) = length (bm_verts bm)"
      "v \<notin> set ?vs \<Longrightarrow> bm_verts bm1 ! v = bm_verts bm ! v"
      unfolding bmesh_ops_scale_def by (rule bmesh_ops_transform_frame)+
    from 2 have b: "bm_faces bm' = bm_faces bm1" "length (bm_verts bm') = length (bm_verts bm1)"
      "v \<notin> set ?vs \<Longrightarrow> bm_verts bm' ! v = bm_verts bm1 ! v"
      unfolding bmesh_ops_translate_def by (rule bmesh_ops_transform_frame)+
    from a b show ?thesis by simp
  next
    case False
    with assms obtain space where
      "bmesh_ops_transform bm matrix (Some space) ?vs = Inr bm'"
      by (auto simp: transform_face_def fd ebind_Inr_iff Let_def)
    from bmesh_ops_transform_frame[OF this] show ?thesis by simp
  qed
  then show "bm_faces bm' = bm_faces bm" "length (bm_verts bm') = length (bm_verts bm)"
    "v \<notin> set (f_verts (bm_faces bm ! fst fd)) \<Longrightarrow> bm_verts bm' ! v = bm_verts bm ! v"
    by (simp_all add: fd)
qed

lemma transform_loop_frame:
  assumes "transform_loop self vector_in nrm collect fds (bm, acc) = Inr (bm', acc')"
  shows "bm_faces bm' = bm_faces bm \<and> length (bm_verts bm') = length (bm_verts bm)
     \<and> acc' = acc @ (if collect then map (\<lambda>fd. f_verts (bm_faces bm ! fst fd)) fds else [])
     \<and> (\<forall>v. (\<forall>fd \<in> set fds. v \<notin> set (f_verts (bm_faces bm ! fst fd)))
            \<longrightarrow> bm_verts bm' ! v = bm_verts bm ! v)"
  using assms
proof (induction fds arbitrary: bm acc)
  case Nil
  then show ?case by simp
next
  case (Cons fd fds)
  from Cons.prems obtain bm1 where
    1: "transform_face self vector_in nrm bm fd = Inr bm1" and
    2: "transform_loop self vector_in nrm collect fds
          (bm1, if collect then acc @ [f_verts (bm_faces bm1 ! fst fd)] else acc) = Inr (bm', acc')"
    by (auto simp: ebind_Inr_iff cong: if_cong)
  note f = transform_face_frame[OF 1]
  note ih = Cons.IH[OF 2]
  have "bm_verts bm' ! v = bm_verts bm ! v"
    if h: "\<forall>fd' \<in> set (fd # fds). v \<notin> set (f_verts (bm_faces bm ! fst fd'))" for v
  proof -
    have "bm_verts bm1 ! v = bm_verts bm ! v"
      using h by (intro f(3)) simp
    moreover have "bm_verts bm' ! v = bm_verts bm1 ! v"
      using ih h by (simp add: f(1))
    ultimately show ?thesis by simp
  qed
  with ih f show ?case by (auto)
qed

section \<open>The extrusion\<close>

lemma extrude_step_simps:
  "bm_verts (fst (extrude_step st f)) = bm_verts (fst st) @ map (\<lambda>v. bm_verts (fst st) ! v) (f_verts f)"
  "bm_faces (fst (extrude_step st f)) =
     bm_faces (fst st) @ f\<lparr>f_verts := [length (bm_verts (fst st))..<length (bm_verts (fst st)) + length (f_verts f)]\<rparr>
        # side_faces f [length (bm_verts (fst st))..<length (bm_verts (fst st)) + length (f_verts f)]"
  "snd (extrude_step st f) = snd st @ [length (bm_faces (fst st))]"
  by (simp_all add: extrude_step_def Let_def)

lemma length_side_faces: "length (side_faces f ring) = length (f_verts f)"
  by (simp add: side_faces_def Let_def)

lemma f_mask_side_faces: "map f_mask (side_faces f ring) = replicate (length (f_verts f)) (f_mask f)"
  by (simp add: side_faces_def Let_def comp_def map_replicate_const)

lemma extrude_fold_masks:
  "map f_mask (bm_faces (fst (foldl extrude_step st fs))) =
     map f_mask (bm_faces (fst st)) @ concat (map (\<lambda>f. replicate (Suc (length (f_verts f))) (f_mask f)) fs)"
  by (induction fs arbitrary: st) (simp_all add: extrude_step_simps f_mask_side_faces)

lemma extrude_fold_inv:
  assumes valid: "\<forall>f \<in> set fs. \<forall>v \<in> set (f_verts f). v < length (bm_verts bm)"
  shows "length (snd (foldl extrude_step (bm, []) fs)) = length fs
    \<and> (\<exists>ys. bm_verts (fst (foldl extrude_step (bm, []) fs)) = bm_verts bm @ ys)
    \<and> (\<exists>zs. bm_faces (fst (foldl extrude_step (bm, []) fs)) = bm_faces bm @ zs)
    \<and> (\<forall>k<length fs.
          snd (foldl extrude_step (bm, []) fs) ! k < length (bm_faces (fst (foldl extrude_step (bm, []) fs)))
        \<and> set (f_verts (bm_faces (fst (foldl extrude_step (bm, []) fs)) ! (snd (foldl extrude_step (bm, []) fs) ! k)))
            \<subseteq> {length (bm_verts bm)..<length (bm_verts (fst (foldl extrude_step (bm, []) fs)))}
        \<and> face_coords (fst (foldl extrude_step (bm, []) fs)) (snd (foldl extrude_step (bm, []) fs) ! k)
            = map (\<lambda>v. bm_verts bm ! v) (f_verts (fs ! k))
        \<and> (\<forall>k'<length fs. k \<noteq> k' \<longrightarrow>
             set (f_verts (bm_faces (fst (foldl extrude_step (bm, []) fs)) ! (snd (foldl extrude_step (bm, []) fs) ! k)))
           \<inter> set (f_verts (bm_faces (fst (foldl extrude_step (bm, []) fs)) ! (snd (foldl extrude_step (bm, []) fs) ! k'))) = {}))"
  using valid
proof (induction fs rule: rev_induct)
  case Nil
  then show ?case by simp
next
  case (snoc x xs)
  define st where "st = foldl extrude_step (bm, []) xs"
  define V where "V = bm_verts (fst st)"
  define F where "F = bm_faces (fst st)"
  define ring where "ring = [length V..<length V + length (f_verts x)]"
  have res: "foldl extrude_step (bm, []) (xs @ [x]) = extrude_step st x"
    by (simp add: st_def)
  have ih: "length (snd st) = length xs" "\<exists>ys. V = bm_verts bm @ ys" "\<exists>zs. F = bm_faces bm @ zs"
    "\<And>k. k < length xs \<Longrightarrow> snd st ! k < length F"
    "\<And>k. k < length xs \<Longrightarrow> set (f_verts (F ! (snd st ! k))) \<subseteq> {length (bm_verts bm)..<length V}"
    "\<And>k. k < length xs \<Longrightarrow> face_coords (fst st) (snd st ! k) = map (\<lambda>v. bm_verts bm ! v) (f_verts (xs ! k))"
    "\<And>k k'. k < length xs \<Longrightarrow> k' < length xs \<Longrightarrow> k \<noteq> k' \<Longrightarrow>
        set (f_verts (F ! (snd st ! k))) \<inter> set (f_verts (F ! (snd st ! k'))) = {}"
    using snoc by (simp_all add: st_def V_def F_def)
  let ?r = "extrude_step st x"
  have V': "bm_verts (fst ?r) = V @ map (\<lambda>v. V ! v) (f_verts x)"
    and F': "bm_faces (fst ?r) = F @ x\<lparr>f_verts := ring\<rparr> # side_faces x ring"
    and C': "snd ?r = snd st @ [length F]"
    by (simp_all add: extrude_step_simps V_def F_def ring_def)
  have xvalid: "\<forall>v \<in> set (f_verts x). v < length (bm_verts bm)" using snoc.prems by simp
  have Vlen: "length (bm_verts bm) \<le> length V" using ih(2) by auto
  have Vpre: "v < length (bm_verts bm) \<Longrightarrow> V ! v = bm_verts bm ! v" for v
    using ih(2) by (auto simp: nth_append)
  have oldcap: "snd ?r ! k = snd st ! k" if "k < length xs" for k
    using that ih(1) by (simp add: C' nth_append)
  have oldface: "bm_faces (fst ?r) ! (snd st ! k) = F ! (snd st ! k)" if "k < length xs" for k
    using ih(4)[OF that] by (simp add: F' nth_append)
  have newcap: "snd ?r ! length xs = length F"
    using ih(1) by (simp add: C' nth_append)
  have newface: "bm_faces (fst ?r) ! length F = x\<lparr>f_verts := ring\<rparr>"
    by (simp add: F' nth_append)
  have ringset: "set ring = {length V..<length V + length (f_verts x)}"
    by (simp add: ring_def)
  have oldcoords: "face_coords (fst ?r) (snd st ! k) = face_coords (fst st) (snd st ! k)"
    if "k < length xs" for k
  proof -
    have "\<forall>v \<in> set (f_verts (F ! (snd st ! k))). v < length V"
      using ih(5)[OF that] by auto
    then show ?thesis
      by (simp add: face_coords_def oldface[OF that] V' nth_append F_def[symmetric] V_def[symmetric])
  qed
  have newcoords: "face_coords (fst ?r) (length F) = map (\<lambda>v. bm_verts bm ! v) (f_verts x)"
  proof -
    have "map (\<lambda>v. (V @ map (\<lambda>v. V ! v) (f_verts x)) ! v) ring = map (\<lambda>v. V ! v) (f_verts x)"
      by (rule nth_equalityI) (simp_all add: ring_def nth_append)
    also have "\<dots> = map (\<lambda>v. bm_verts bm ! v) (f_verts x)"
      using xvalid Vpre by simp
    finally show ?thesis by (simp add: face_coords_def newface V')
  qed
  have capp: "snd ?r ! k < length (bm_faces (fst ?r))
        \<and> set (f_verts (bm_faces (fst ?r) ! (snd ?r ! k))) \<subseteq> {length (bm_verts bm)..<length (bm_verts (fst ?r))}
        \<and> face_coords (fst ?r) (snd ?r ! k) = map (\<lambda>v. bm_verts bm ! v) (f_verts ((xs @ [x]) ! k))"
    if "k < length (xs @ [x])" for k
  proof (cases "k < length xs")
    case True
    have "length F \<le> length (bm_faces (fst ?r))" by (simp add: F')
    with ih(4)[OF True] ih(5)[OF True] ih(6)[OF True] show ?thesis
      by (auto simp: oldcap[OF True] oldface[OF True] oldcoords[OF True] nth_append True V')
  next
    case False
    with that have k: "k = length xs" by simp
    show ?thesis
      using Vlen by (auto simp: k newcap newface newcoords ringset V' F')
  qed
  have vset: "set (f_verts (bm_faces (fst ?r) ! (snd ?r ! k))) =
      (if k < length xs then set (f_verts (F ! (snd st ! k))) else set ring)"
    if "k < length (xs @ [x])" for k
  proof (cases "k < length xs")
    case True
    then show ?thesis by (simp add: oldcap oldface)
  next
    case False
    with that have k: "k = length xs" by simp
    show ?thesis by (simp add: k newcap newface)
  qed
  have disj: "set (f_verts (bm_faces (fst ?r) ! (snd ?r ! k)))
            \<inter> set (f_verts (bm_faces (fst ?r) ! (snd ?r ! k'))) = {}"
    if "k < length (xs @ [x])" "k' < length (xs @ [x])" "k \<noteq> k'" for k k'
  proof -
    have a: "set (f_verts (F ! (snd st ! j))) \<inter> set ring = {}" if "j < length xs" for j
      using ih(5)[OF that] by (auto simp: ringset)
    show ?thesis
      using that ih(7)[of k k'] a[of k] a[of k']
      by (auto simp: vset[OF that(1)] vset[OF that(2)] split: if_splits)
  qed
  have "length (snd ?r) = length (xs @ [x])" using ih(1) by (simp add: C')
  moreover have "\<exists>ys. bm_verts (fst ?r) = bm_verts bm @ ys" using ih(2) by (auto simp: V')
  moreover have "\<exists>zs. bm_faces (fst ?r) = bm_faces bm @ zs" using ih(3) by (auto simp: F')
  ultimately show ?case
    unfolding res using capp disj by blast
qed

section \<open>The frame\<close>




section \<open>The parameter lists and the tagged mesh\<close>

lemma fullList_Inr:
  assumes "fullList l n = Inr l'"
  shows "n \<le> length l'"
    and "l' = (if length l < n then l @ replicate (n - length l) (last l) else l)"
  using assms by (auto simp: fullList_def split: if_splits)

lemma resolve_lists_Inr:
  assumes "resolve_lists n masks0 heights0 scales0 matrixes0 = Inr (masks, heights, scales, matrixes)"
  shows "fullList masks0 n = Inr masks" "n \<le> length masks" "n \<le> length heights"
    "n \<le> length scales" "n \<le> length matrixes"
  using assms by (auto simp: resolve_lists_def ebind_Inr_iff dest: fullList_Inr(1))

lemma length_fill_layer: "length (fill_layer fs ms v) = length fs"
  by (induction fs ms v rule: fill_layer.induct) simp_all

lemma f_verts_fill_layer: "map f_verts (fill_layer fs ms v) = map f_verts fs"
  by (induction fs ms v rule: fill_layer.induct) simp_all

lemma f_mask_fill_layer:
  "i < length fs \<Longrightarrow>
     f_mask (fill_layer fs ms v ! i) = (if i < length ms \<and> ms ! i \<noteq> 0 then v else f_mask (fs ! i))"
proof (induction fs ms v arbitrary: i rule: fill_layer.induct)
  case (1 f fs m ms v)
  then show ?case by (cases i) simp_all
qed simp_all

lemma tagged_mesh_Inr:
  assumes "tagged_mesh vertices edges faces masks = Inr bm0"
  shows "bm_verts bm0 = vertices" "map f_verts (bm_faces bm0) = faces"
    "length (bm_faces bm0) = length faces"
    "\<forall>f \<in> set faces. \<forall>v \<in> set f. v < length vertices"
    "\<And>i. i < length faces \<Longrightarrow>
       f_mask (bm_faces bm0 ! i) = (if i < length masks \<and> masks ! i \<noteq> 0 then OUT else MASK)"
    "\<And>i. i < length faces \<Longrightarrow> f_verts (bm_faces bm0 ! i) = faces ! i"
proof -
  from assms have v: "list_all (list_all (\<lambda>v. v < length vertices)) faces"
    and bm0: "bm0 = fill_faces_layer (layers_int_new
        \<lparr>bm_verts = vertices, bm_faces = map (\<lambda>f. \<lparr>f_verts = f, f_mask = 0\<rparr>) faces\<rparr>) masks OUT"
    by (auto simp: tagged_mesh_def bmesh_from_pydata_def ebind_Inr_iff split: if_splits)
  show "bm_verts bm0 = vertices"
    by (simp add: bm0 fill_faces_layer_def layers_int_new_def)
  show fv: "map f_verts (bm_faces bm0) = faces"
    by (simp add: bm0 fill_faces_layer_def layers_int_new_def f_verts_fill_layer comp_def)
  show len: "length (bm_faces bm0) = length faces"
    by (simp add: bm0 fill_faces_layer_def layers_int_new_def length_fill_layer)
  show "\<forall>f \<in> set faces. \<forall>v \<in> set f. v < length vertices"
    using v by (simp add: list_all_iff)
  show "f_mask (bm_faces bm0 ! i) = (if i < length masks \<and> masks ! i \<noteq> 0 then OUT else MASK)"
    if "i < length faces" for i
    using that
    by (simp add: bm0 fill_faces_layer_def layers_int_new_def f_mask_fill_layer MASK_def)
  show "f_verts (bm_faces bm0 ! i) = faces ! i" if "i < length faces" for i
    using that fv len by (metis nth_map)
qed

lemma zip_nth_map:
  "zip xs ys = map (\<lambda>i. (xs ! i, ys ! i)) [0..<min (length xs) (length ys)]"
  by (rule nth_equalityI) simp_all



lemma faces_to_extrude_NOTRANSFORM:
  assumes "mask_mode self = NOTRANSFORM"
  shows "faces_to_extrude self bm masks = [0..<length (bm_faces bm)]"
  using assms by (simp add: faces_to_extrude_def)

lemma set_faces_to_extrude:
  "set (faces_to_extrude self bm masks) \<subseteq> {0..<length (bm_faces bm)}"
  by (auto simp: faces_to_extrude_def dest!: set_zip_leftD)

lemma length_faces_to_extrude:
  "length (faces_to_extrude self bm masks) \<le> length (bm_faces bm)"
proof -
  have "length (filter (\<lambda>(face, mask). mask \<noteq> 0) (zip [0..<length (bm_faces bm)] masks))
      \<le> length (zip [0..<length (bm_faces bm)] masks)"
    by (rule length_filter_le)
  then show ?thesis by (simp add: faces_to_extrude_def)
qed

lemma zip4_nth:
  assumes "length caps \<le> length hs" "length caps \<le> length ss" "length caps \<le> length ms"
  shows "zip caps (zip hs (zip ss ms)) = map (\<lambda>j. (caps ! j, hs ! j, ss ! j, ms ! j)) [0..<length caps]"
  using assms by (intro nth_equalityI) simp_all

lemma face_data_NOEXTRUDE:
  assumes "mask_mode self = NOEXTRUDE"
    "length caps \<le> length hs" "length caps \<le> length ss" "length caps \<le> length ms"
  shows "face_data self caps masks hs ss ms =
     map (\<lambda>j. (caps ! j, hs ! j, ss ! j, ms ! j)) [0..<length caps]"
  using assms by (simp add: face_data_def zip4_nth)

lemma face_data_NOTRANSFORM:
  assumes "mask_mode self = NOTRANSFORM" "length caps \<le> length masks"
    "length caps \<le> length hs" "length caps \<le> length ss" "length caps \<le> length ms"
  shows "face_data self caps masks hs ss ms =
     map (\<lambda>j. (caps ! j, hs ! j, ss ! j, ms ! j)) (filter (\<lambda>j. masks ! j \<noteq> 0) [0..<length caps])"
proof -
  have "zip caps (zip masks (zip hs (zip ss ms)))
      = map (\<lambda>j. (caps ! j, masks ! j, hs ! j, ss ! j, ms ! j)) [0..<length caps]"
    using assms by (intro nth_equalityI) simp_all
  then show ?thesis
    using assms(1) by (simp add: face_data_def filter_map comp_def)
qed

lemma face_data_caps:
  assumes "length caps \<le> length masks"
    "length caps \<le> length hs" "length caps \<le> length ss" "length caps \<le> length ms"
    "fd \<in> set (face_data self caps masks hs ss ms)"
  shows "\<exists>j<length caps. fst fd = caps ! j"
proof (cases "mask_mode self")
  case NOEXTRUDE
  with assms show ?thesis by (auto simp: face_data_NOEXTRUDE)
next
  case NOTRANSFORM
  with assms show ?thesis by (auto simp: face_data_NOTRANSFORM)
qed

section \<open>One mesh of the batch\<close>

lemma extrude_discrete_faces_props:
  assumes sel: "set sel \<subseteq> {0..<length (bm_faces bm)}"
    and valid: "\<forall>f \<in> set (bm_faces bm). \<forall>v \<in> set (f_verts f). v < length (bm_verts bm)"
    and ex: "ex = extrude_discrete_faces bm sel"
  shows "length (snd ex) = length sel"
    and "\<exists>ys. bm_verts (fst ex) = bm_verts bm @ ys"
    and "\<And>k. k < length sel \<Longrightarrow> snd ex ! k < length (bm_faces (fst ex))"
    and "\<And>k. k < length sel \<Longrightarrow>
           set (f_verts (bm_faces (fst ex) ! (snd ex ! k)))
             \<subseteq> {length (bm_verts bm)..<length (bm_verts (fst ex))}"
    and "\<And>k. k < length sel \<Longrightarrow>
           face_coords (fst ex) (snd ex ! k) = face_coords bm (sel ! k)"
    and "\<And>k k'. k < length sel \<Longrightarrow> k' < length sel \<Longrightarrow> k \<noteq> k' \<Longrightarrow>
           set (f_verts (bm_faces (fst ex) ! (snd ex ! k)))
             \<inter> set (f_verts (bm_faces (fst ex) ! (snd ex ! k'))) = {}"
    and "\<And>i. i < length (bm_faces bm) \<Longrightarrow> i \<notin> set sel \<Longrightarrow>
           bm_faces bm ! i \<in> set (bm_faces (fst ex))"
    and "map f_mask (bm_faces (fst ex))
           = map (\<lambda>i. f_mask (bm_faces bm ! i)) (face_origins (map f_verts (bm_faces bm)) sel)"
proof -
  define orig where "orig = bm_faces bm"
  define kept where "kept = map (\<lambda>i. orig ! i) (filter (\<lambda>i. i \<notin> set sel) [0..<length orig])"
  define b where "b = bm\<lparr>bm_faces := kept\<rparr>"
  define fs where "fs = map (\<lambda>i. orig ! i) sel"
  have exf: "ex = foldl extrude_step (b, []) fs"
    by (simp add: ex extrude_discrete_faces_def Let_def orig_def kept_def b_def fs_def)
  have bv: "bm_verts b = bm_verts bm" and bf: "bm_faces b = kept" by (simp_all add: b_def)
  have selk: "sel ! k < length orig" if "k < length sel" for k
    using sel that by (auto simp: orig_def subset_iff)
  have "\<forall>f \<in> set fs. \<forall>v \<in> set (f_verts f). v < length (bm_verts b)"
    using valid sel by (auto simp: fs_def bv orig_def subset_iff)
  note inv = extrude_fold_inv [OF this, folded exf, unfolded bv bf]
  have lfs: "length fs = length sel" by (simp add: fs_def)
  show "length (snd ex) = length sel" using inv lfs by simp
  show "\<exists>ys. bm_verts (fst ex) = bm_verts bm @ ys" using inv by blast
  show "snd ex ! k < length (bm_faces (fst ex))" if "k < length sel" for k
    using inv that lfs by simp
  show "set (f_verts (bm_faces (fst ex) ! (snd ex ! k)))
             \<subseteq> {length (bm_verts bm)..<length (bm_verts (fst ex))}" if "k < length sel" for k
    using inv that lfs by simp
  show "face_coords (fst ex) (snd ex ! k) = face_coords bm (sel ! k)" if "k < length sel" for k
  proof -
    have "face_coords (fst ex) (snd ex ! k) = map (\<lambda>v. bm_verts bm ! v) (f_verts (fs ! k))"
      using inv that lfs by simp
    then show ?thesis using that by (simp add: fs_def face_coords_def orig_def)
  qed
  show "set (f_verts (bm_faces (fst ex) ! (snd ex ! k)))
             \<inter> set (f_verts (bm_faces (fst ex) ! (snd ex ! k'))) = {}"
    if "k < length sel" "k' < length sel" "k \<noteq> k'" for k k'
    using inv that lfs by simp
  show "bm_faces bm ! i \<in> set (bm_faces (fst ex))"
    if "i < length (bm_faces bm)" "i \<notin> set sel" for i
  proof -
    have "orig ! i \<in> set kept" using that by (auto simp: kept_def orig_def)
    moreover obtain zs where "bm_faces (fst ex) = kept @ zs" using inv by blast
    ultimately show ?thesis by (simp add: orig_def)
  qed
  show "map f_mask (bm_faces (fst ex))
           = map (\<lambda>i. f_mask (bm_faces bm ! i)) (face_origins (map f_verts (bm_faces bm)) sel)"
  proof -
    have "map f_mask (bm_faces (fst ex)) =
        map f_mask kept @ concat (map (\<lambda>f. replicate (Suc (length (f_verts f))) (f_mask f)) fs)"
      unfolding exf using extrude_fold_masks [of "(b, [])" fs] by (simp add: bf)
    moreover have "map (\<lambda>f. replicate (Suc (length (f_verts f))) (f_mask f)) fs
        = map (\<lambda>i. map (\<lambda>i. f_mask (orig ! i))
                     (replicate (Suc (length (map f_verts orig ! i))) i)) sel"
      using selk by (auto simp: fs_def in_set_conv_nth)
    ultimately show ?thesis
      by (simp add: face_origins_def kept_def orig_def map_concat comp_def)
  qed
qed

lemma process_item_Inr:
  assumes "process_item self vector_in nrm outs vertices edges faces masks0 heights0 scales0
             matrixes0 = Inr r"
  obtains masks heights scales matrixes bm0 bm where
    "resolve_lists (length faces) masks0 heights0 scales0 matrixes0
       = Inr (masks, heights, scales, matrixes)"
    "tagged_mesh vertices edges faces masks = Inr bm0"
    "transform_loop self vector_in nrm (ExtrudedPolys_linked outs \<or> OtherPolys_linked outs)
       (face_data self (snd (extrude_discrete_faces bm0 (faces_to_extrude self bm0 masks)))
          masks heights scales matrixes)
       (fst (extrude_discrete_faces bm0 (faces_to_extrude self bm0 masks)), [])
       = Inr (bm, new_extruded_faces r)"
    "new_vertices r = bm_verts bm" "new_faces r = map f_verts (bm_faces bm)"
    "new_other_faces r = (if OtherPolys_linked outs
        then filter (\<lambda>f. f \<notin> set (new_extruded_faces r)) (new_faces r) else [])"
    "new_mask r = (if need_mask_out outs
        then (case get_out_mask self bm
                     (snd (extrude_discrete_faces bm0 (faces_to_extrude self bm0 masks))) of
                Inr m \<Rightarrow> Some m | Inl e \<Rightarrow> None) else None)"
    "need_mask_out outs \<longrightarrow> (\<exists>m. get_out_mask self bm
         (snd (extrude_discrete_faces bm0 (faces_to_extrude self bm0 masks))) = Inr m)"
  using assms
  by (fastforce simp: process_item_def ebind_Inr_iff Let_def pydata_from_bmesh_def
      split: if_splits prod.splits)

lemma item_facts:
  assumes r: "process_item self vector_in nrm outs vertices edges faces masks0 heights0 scales0
             matrixes0 = Inr r"
    and rl: "resolve_lists (length faces) masks0 heights0 scales0 matrixes0
             = Inr (masks, heights, scales, matrixes)"
    and tm: "tagged_mesh vertices edges faces masks = Inr bm0"
    and sel: "sel = faces_to_extrude self bm0 masks"
    and ex: "ex = extrude_discrete_faces bm0 sel"
    and fd: "fd = face_data self (snd ex) masks heights scales matrixes"
  shows "new_faces r = map f_verts (bm_faces (fst ex))"
    and "new_extruded_faces r =
           (if ExtrudedPolys_linked outs \<or> OtherPolys_linked outs
            then map (\<lambda>d. new_faces r ! fst d) fd else [])"
    and "\<And>v. (\<forall>d \<in> set fd. v \<notin> set (new_faces r ! fst d))
           \<Longrightarrow> new_vertices r ! v = bm_verts (fst ex) ! v"
    and "\<And>d. d \<in> set fd \<Longrightarrow> \<exists>k<length sel. fst d = snd ex ! k"
    and "length (snd ex) = length sel"
    and "set sel \<subseteq> {0..<length faces}"
    and "\<And>k. k < length sel \<Longrightarrow> snd ex ! k < length (new_faces r)"
    and "\<And>k. k < length sel \<Longrightarrow>
           set (new_faces r ! (snd ex ! k)) \<subseteq> {length vertices..<length (new_vertices r)}"
    and "\<And>k. k < length sel \<Longrightarrow>
           map (\<lambda>v. bm_verts (fst ex) ! v) (new_faces r ! (snd ex ! k))
             = map (\<lambda>v. vertices ! v) (faces ! (sel ! k))"
    and "\<And>k k'. k < length sel \<Longrightarrow> k' < length sel \<Longrightarrow> k \<noteq> k' \<Longrightarrow>
           set (new_faces r ! (snd ex ! k)) \<inter> set (new_faces r ! (snd ex ! k')) = {}"
    and "\<exists>ys. bm_verts (fst ex) = vertices @ ys"
    and "\<And>i. i < length faces \<Longrightarrow> i \<notin> set sel \<Longrightarrow> faces ! i \<in> set (new_faces r)"
    and "map f_mask (bm_faces (fst ex))
           = map (\<lambda>i. if masks ! i \<noteq> 0 then OUT else MASK) (face_origins faces sel)"
    and "new_mask r = (if need_mask_out outs
           then (case emap (mask_value (mask_out_type self)) (tag_in (bm_faces (fst ex)) (snd ex)) of
                   Inr m \<Rightarrow> Some m | Inl e \<Rightarrow> None) else None)"
    and "need_mask_out outs \<Longrightarrow>
           \<exists>m. emap (mask_value (mask_out_type self)) (tag_in (bm_faces (fst ex)) (snd ex)) = Inr m"
    and "new_other_faces r = (if OtherPolys_linked outs
           then filter (\<lambda>f. f \<notin> set (new_extruded_faces r)) (new_faces r) else [])"
    and "length (new_vertices r) = length (bm_verts (fst ex))"
proof -
  from r obtain masks' heights' scales' matrixes' bm0' bm where
    rl': "resolve_lists (length faces) masks0 heights0 scales0 matrixes0
       = Inr (masks', heights', scales', matrixes')" and
    tm': "tagged_mesh vertices edges faces masks' = Inr bm0'" and
    tl': "transform_loop self vector_in nrm (ExtrudedPolys_linked outs \<or> OtherPolys_linked outs)
       (face_data self (snd (extrude_discrete_faces bm0' (faces_to_extrude self bm0' masks')))
          masks' heights' scales' matrixes')
       (fst (extrude_discrete_faces bm0' (faces_to_extrude self bm0' masks')), [])
       = Inr (bm, new_extruded_faces r)" and
    nv: "new_vertices r = bm_verts bm" and nf: "new_faces r = map f_verts (bm_faces bm)" and
    no: "new_other_faces r = (if OtherPolys_linked outs
        then filter (\<lambda>f. f \<notin> set (new_extruded_faces r)) (new_faces r) else [])" and
    nm': "new_mask r = (if need_mask_out outs
        then (case get_out_mask self bm
                     (snd (extrude_discrete_faces bm0' (faces_to_extrude self bm0' masks'))) of
                Inr m \<Rightarrow> Some m | Inl e \<Rightarrow> None) else None)" and
    gm': "need_mask_out outs \<longrightarrow> (\<exists>m. get_out_mask self bm
         (snd (extrude_discrete_faces bm0' (faces_to_extrude self bm0' masks'))) = Inr m)"
    by (rule process_item_Inr)
  from rl rl' have eqs: "masks' = masks" "heights' = heights" "scales' = scales"
    "matrixes' = matrixes" by simp_all
  from tm tm' have eqb: "bm0' = bm0" by (simp add: eqs)
  have eqx: "extrude_discrete_faces bm0' (faces_to_extrude self bm0' masks') = ex"
    by (simp add: eqs eqb ex sel)
  have tl: "transform_loop self vector_in nrm (ExtrudedPolys_linked outs \<or> OtherPolys_linked outs)
       fd (fst ex, []) = Inr (bm, new_extruded_faces r)"
    using tl' unfolding eqx by (simp add: fd eqs)
  note nm = nm' [unfolded eqx]
  note gm = gm' [unfolded eqx]
  note lf = transform_loop_frame [OF tl]
  have bf: "bm_faces bm = bm_faces (fst ex)" using lf by simp
  note t = tagged_mesh_Inr [OF tm]
  note rr = resolve_lists_Inr [OF rl]
  have selsub: "set sel \<subseteq> {0..<length (bm_faces bm0)}"
    unfolding sel by (rule set_faces_to_extrude)
  have valid: "\<forall>f \<in> set (bm_faces bm0). \<forall>v \<in> set (f_verts f). v < length (bm_verts bm0)"
  proof (intro ballI)
    fix f v assume "f \<in> set (bm_faces bm0)" "v \<in> set (f_verts f)"
    then have "f_verts f \<in> set faces" using t(2) by (metis image_eqI set_map)
    with t(4) \<open>v \<in> set (f_verts f)\<close> show "v < length (bm_verts bm0)" by (simp add: t(1))
  qed
  note e = extrude_discrete_faces_props [OF selsub valid ex]
  have lensel: "length sel \<le> length faces"
    unfolding sel using length_faces_to_extrude [of self bm0 masks] by (simp add: t(3))
  show F1: "new_faces r = map f_verts (bm_faces (fst ex))" by (simp add: nf bf)
  have capk: "snd ex ! k < length (bm_faces (fst ex))" if "k < length sel" for k
    using e(3) that by simp
  have nfk: "new_faces r ! (snd ex ! k) = f_verts (bm_faces (fst ex) ! (snd ex ! k))"
    if "k < length sel" for k
    using capk [OF that] by (simp add: F1)
  show F4: "\<exists>k<length sel. fst d = snd ex ! k" if "d \<in> set fd" for d
  proof -
    have "\<exists>j<length (snd ex). fst d = snd ex ! j"
      using that rr lensel unfolding fd
      by (intro face_data_caps [where masks = masks and hs = heights and ss = scales
            and ms = matrixes and self = self]) (simp_all add: e(1))
    then show ?thesis by (simp add: e(1))
  qed
  have nfd: "new_faces r ! fst d = f_verts (bm_faces (fst ex) ! fst d)" if "d \<in> set fd" for d
    using F4 [OF that] nfk by auto
  show "new_extruded_faces r =
           (if ExtrudedPolys_linked outs \<or> OtherPolys_linked outs
            then map (\<lambda>d. new_faces r ! fst d) fd else [])"
    using lf nfd by (auto simp: bf)
  show "new_vertices r ! v = bm_verts (fst ex) ! v"
    if "\<forall>d \<in> set fd. v \<notin> set (new_faces r ! fst d)" for v
    using lf that nfd by (simp add: nv)
  show "length (snd ex) = length sel" by (rule e(1))
  show "set sel \<subseteq> {0..<length faces}" using selsub by (simp add: t(3))
  show "snd ex ! k < length (new_faces r)" if "k < length sel" for k
    using capk [OF that] by (simp add: F1)
  have lv: "length (new_vertices r) = length (bm_verts (fst ex))" using lf by (simp add: nv)
  show "set (new_faces r ! (snd ex ! k)) \<subseteq> {length vertices..<length (new_vertices r)}"
    if "k < length sel" for k
    using e(4) [OF that] by (simp add: nfk [OF that] lv t(1))
  show "map (\<lambda>v. bm_verts (fst ex) ! v) (new_faces r ! (snd ex ! k))
             = map (\<lambda>v. vertices ! v) (faces ! (sel ! k))" if "k < length sel" for k
  proof -
    have "sel ! k < length faces" using that selsub by (auto simp: t(3) subset_iff)
    with e(5) [OF that] show ?thesis
      by (simp add: face_coords_def nfk [OF that] t(1) t(6))
  qed
  show "set (new_faces r ! (snd ex ! k)) \<inter> set (new_faces r ! (snd ex ! k')) = {}"
    if "k < length sel" "k' < length sel" "k \<noteq> k'" for k k'
    using e(6) [OF that] by (simp add: nfk that)
  show "\<exists>ys. bm_verts (fst ex) = vertices @ ys" using e(2) by (simp add: t(1))
  show "faces ! i \<in> set (new_faces r)" if "i < length faces" "i \<notin> set sel" for i
  proof -
    have "bm_faces bm0 ! i \<in> set (bm_faces (fst ex))"
      using e(7) that by (simp add: t(3))
    then have "f_verts (bm_faces bm0 ! i) \<in> set (new_faces r)" by (simp add: F1)
    then show ?thesis using that by (simp add: t(6))
  qed
  show "map f_mask (bm_faces (fst ex))
           = map (\<lambda>i. if masks ! i \<noteq> 0 then OUT else MASK) (face_origins faces sel)"
  proof -
    have "\<forall>i \<in> set (face_origins faces sel). i < length faces"
      using selsub by (auto simp: face_origins_def t(3))
    then have "map (\<lambda>i. f_mask (bm_faces bm0 ! i)) (face_origins faces sel)
        = map (\<lambda>i. if masks ! i \<noteq> 0 then OUT else MASK) (face_origins faces sel)"
      using t(5) rr(2) by (intro map_cong) auto
    then show ?thesis using e(8) by (simp add: t(2))
  qed
  show "new_mask r = (if need_mask_out outs
           then (case emap (mask_value (mask_out_type self)) (tag_in (bm_faces (fst ex)) (snd ex)) of
                   Inr m \<Rightarrow> Some m | Inl e \<Rightarrow> None) else None)"
    using nm by (simp add: get_out_mask_def bf)
  show "\<exists>m. emap (mask_value (mask_out_type self)) (tag_in (bm_faces (fst ex)) (snd ex)) = Inr m"
    if "need_mask_out outs"
    using gm that by (simp add: get_out_mask_def bf)
  show "new_other_faces r = (if OtherPolys_linked outs
           then filter (\<lambda>f. f \<notin> set (new_extruded_faces r)) (new_faces r) else [])"
    by (rule no)
  show "length (new_vertices r) = length (bm_verts (fst ex))" by (rule lv)
qed

lemma item_resolved:
  assumes r: "process_item self vector_in nrm outs vertices edges faces masks0 heights0 scales0
             matrixes0 = Inr r"
  obtains masks heights scales matrixes bm0 where
    "resolve_lists (length faces) masks0 heights0 scales0 matrixes0
       = Inr (masks, heights, scales, matrixes)"
    "tagged_mesh vertices edges faces masks = Inr bm0"
    "fullList masks0 (length faces) = Inr masks"
proof -
  from r obtain masks heights scales matrixes bm0 where
    1: "resolve_lists (length faces) masks0 heights0 scales0 matrixes0
       = Inr (masks, heights, scales, matrixes)"
    and 2: "tagged_mesh vertices edges faces masks = Inr bm0"
    by (rule process_item_Inr)
  from resolve_lists_Inr(1) [OF 1] 1 2 that show ?thesis by blast
qed


section \<open>The output mask\<close>

lemma length_tag_in: "length (tag_in fs cs) = length fs"
  unfolding tag_in_def by (induction cs arbitrary: fs) simp_all

lemma tag_in_nth:
  "j < length fs \<Longrightarrow>
     tag_in fs cs ! j = (if j \<in> set cs then (fs ! j)\<lparr>f_mask := IN\<rparr> else fs ! j)"
  unfolding tag_in_def
proof (induction cs arbitrary: fs)
  case Nil
  then show ?case by simp
next
  case (Cons c cs)
  have "foldl (\<lambda>fs i. fs[i := (fs ! i)\<lparr>f_mask := IN\<rparr>]) (fs[c := (fs ! c)\<lparr>f_mask := IN\<rparr>]) cs ! j
      = (if j \<in> set cs then ((fs[c := (fs ! c)\<lparr>f_mask := IN\<rparr>]) ! j)\<lparr>f_mask := IN\<rparr>
         else (fs[c := (fs ! c)\<lparr>f_mask := IN\<rparr>]) ! j)"
    using Cons.prems by (intro Cons.IH) simp
  then show ?case using Cons.prems by (cases "j = c") auto
qed

lemma emap_Inr:
  "emap g xs = Inr ys \<Longrightarrow> length ys = length xs \<and> (\<forall>j<length xs. g (xs ! j) = Inr (ys ! j))"
proof (induction xs arbitrary: ys)
  case Nil
  then show ?case by simp
next
  case (Cons x xs)
  from Cons.prems obtain y ys' where y: "g x = Inr y" and ys': "emap g xs = Inr ys'"
    and ys: "ys = y # ys'"
    by (auto simp: ebind_Inr_iff)
  from Cons.IH [OF ys'] y show ?case
    by (auto simp: ys nth_Cons split: nat.splits)
qed

lemma mask_value_Inr:
  "mask_value out_type f = Inr x \<Longrightarrow>
     \<exists>name. MASK_MEANING (f_mask f) = Some name \<and> x = (if name \<in> out_type then 1 else 0)"
  by (auto simp: mask_value_def split: option.splits)


section \<open>The example, evaluated\<close>

lemma ex_resolve_noextrude:
  "resolve_lists (length ex_faces) [1, 0] [0] [Num 1] [Matrix_identity]
     = Inr ([1, 0], [0, 0], [Num 1, Num 1], [Matrix_identity, Matrix_identity])"
  by (simp add: resolve_lists_def fullList_def ex_faces_def)

lemma ex_resolve_notransform:
  "resolve_lists (length ex_faces) [1, 0] [1] [Num 2] [Matrix_identity]
     = Inr ([1, 0], [1, 1], [Num 2, Num 2], [Matrix_identity, Matrix_identity])"
  by (simp add: resolve_lists_def fullList_def ex_faces_def)

lemma ex_tagged: "tagged_mesh ex_vertices [] ex_faces [1, 0] = Inr ex_bm0"
  by (simp add: tagged_mesh_def bmesh_from_pydata_def layers_int_new_def fill_faces_layer_def
      OUT_def ex_vertices_def ex_faces_def ex_bm0_def)

lemma ex_sel_noextrude: "faces_to_extrude (ex_node NOEXTRUDE) ex_bm0 [1, 0] = [0]"
  by (simp add: faces_to_extrude_def ex_node_def ex_bm0_def)

lemma ex_sel_notransform: "faces_to_extrude (ex_node NOTRANSFORM) ex_bm0 [1, 0] = [0, Suc 0]"
  by (simp add: faces_to_extrude_def ex_node_def ex_bm0_def)

lemma ex_extrude_noextrude:
  "extrude_discrete_faces ex_bm0 [0] =
     (\<lparr>bm_verts = [(0, 0, 0), (1, 0, 0), (1, 1, 0), (0, 1, 0), (0, 0, 0), (1, 0, 0), (1, 1, 0)],
       bm_faces = [\<lparr>f_verts = [0, 2, 3], f_mask = 0\<rparr>, \<lparr>f_verts = [4, 5, 6], f_mask = 1\<rparr>,
                   \<lparr>f_verts = [1, 5, 4, 0], f_mask = 1\<rparr>, \<lparr>f_verts = [2, 6, 5, 1], f_mask = 1\<rparr>,
                   \<lparr>f_verts = [0, 4, 6, 2], f_mask = 1\<rparr>]\<rparr>, [Suc 0])"
  by (simp add: extrude_discrete_faces_def extrude_step_def side_faces_def Let_def
      ex_bm0_def ex_vertices_def)

lemma ex_extrude_notransform:
  "extrude_discrete_faces ex_bm0 [0, Suc 0] =
     (\<lparr>bm_verts = [(0, 0, 0), (1, 0, 0), (1, 1, 0), (0, 1, 0), (0, 0, 0), (1, 0, 0), (1, 1, 0),
                   (0, 0, 0), (1, 1, 0), (0, 1, 0)],
       bm_faces = [\<lparr>f_verts = [4, 5, 6], f_mask = 1\<rparr>,
                   \<lparr>f_verts = [1, 5, 4, 0], f_mask = 1\<rparr>, \<lparr>f_verts = [2, 6, 5, 1], f_mask = 1\<rparr>,
                   \<lparr>f_verts = [0, 4, 6, 2], f_mask = 1\<rparr>, \<lparr>f_verts = [7, 8, 9], f_mask = 0\<rparr>,
                   \<lparr>f_verts = [2, 8, 7, 0], f_mask = 0\<rparr>, \<lparr>f_verts = [3, 9, 8, 2], f_mask = 0\<rparr>,
                   \<lparr>f_verts = [0, 7, 9, 3], f_mask = 0\<rparr>]\<rparr>, [0, 4])"
  by (simp add: extrude_discrete_faces_def extrude_step_def side_faces_def Let_def
      ex_bm0_def ex_vertices_def)

lemmas ex_transform_defs = transform_face_def face_normal_def face_coords_def
  calc_center_median_def frame_space_def frame_rotation_def Matrix_identity_def inverted_def
  scale_vec_def bmesh_ops_scale_def bmesh_ops_translate_def bmesh_ops_transform_def
  transform_verts_def ex_normal_def Let_def

lemma ex_fd_noextrude:
  "face_data (ex_node NOEXTRUDE) [Suc 0] [1, 0] [0, 0] [Num 1, Num 1]
      [Matrix_identity, Matrix_identity] = [(Suc 0, 0, Num 1, Matrix_identity)]"
  by (simp add: face_data_def ex_node_def)

lemma ex_fd_notransform:
  "face_data (ex_node NOTRANSFORM) [0, 4] [1, 0] [1, 1] [Num 2, Num 2]
      [Matrix_identity, Matrix_identity] = [(0, 1, Num 2, Matrix_identity)]"
  by (simp add: face_data_def ex_node_def)

lemma ex_process_noextrude:
  "process_item (ex_node NOEXTRUDE) False ex_normal ex_outs ex_vertices [] ex_faces
      [1, 0] [0] [Num 1] [Matrix_identity] = Inr ex_result_noextrude"
  unfolding process_item_def ex_resolve_noextrude
  by (simp add: ex_tagged ex_sel_noextrude ex_extrude_noextrude ex_fd_noextrude)
     (simp add: ex_transform_defs face_data_def ex_node_def ex_outs_def pydata_from_bmesh_def
        need_mask_out_def get_out_mask_def tag_in_def mask_value_def MASK_MEANING_def
        MASK_def OUT_def IN_def ex_result_noextrude_def)

lemma ex_process_notransform:
  "process_item (ex_node NOTRANSFORM) False ex_normal ex_outs ex_vertices [] ex_faces
      [1, 0] [1] [Num 2] [Matrix_identity] = Inr ex_result_notransform"
  unfolding process_item_def ex_resolve_notransform
  by (simp add: ex_tagged ex_sel_notransform ex_extrude_notransform ex_fd_notransform)
     (simp add: ex_transform_defs face_data_def ex_node_def ex_outs_def pydata_from_bmesh_def
        need_mask_out_def get_out_mask_def tag_in_def mask_value_def MASK_MEANING_def
        MASK_def OUT_def IN_def ex_result_notransform_def)

lemma ex_caps_noextrude: "snd (extrude_discrete_faces ex_bm0 [0]) = [Suc 0]"
  by (simp add: ex_extrude_noextrude)

lemma ex_caps_notransform: "snd (extrude_discrete_faces ex_bm0 [0, Suc 0]) = [0, 4]"
  by (simp add: ex_extrude_notransform)

section \<open>No error on well-formed input\<close>

lemma fullList_succeeds:
  "l \<noteq> [] \<or> n = 0 \<Longrightarrow> \<exists>l'. fullList l n = Inr l' \<and> set l' \<subseteq> set l"
  by (auto simp: fullList_def)

lemma emap_succeeds:
  "(\<And>x. x \<in> set xs \<Longrightarrow> \<exists>y. g x = Inr y) \<Longrightarrow> \<exists>ys. emap g xs = Inr ys"
proof (induction xs)
  case Nil
  then show ?case by simp
next
  case (Cons x xs)
  from Cons.prems [of x] obtain y where y: "g x = Inr y" by auto
  from Cons.IH Cons.prems obtain ys where "emap g xs = Inr ys" by auto
  with y show ?case by simp
qed

lemma transform_face_succeeds:
  assumes "extrude_mode self = NORMAL \<longrightarrow> (\<exists>vec. scale_vec vector_in (fst (snd (snd fd))) = Inr vec)"
  shows "\<exists>bm'. transform_face self vector_in nrm bm fd = Inr bm'"
proof -
  obtain face height scale matrix where fd: "fd = (face, height, scale, matrix)"
    by (cases fd) auto
  obtain S Si where S: "frame_space (face_normal nrm bm face) (calc_center_median bm face) = Inr S"
    and Si: "inverted S = Inr Si"
    by (rule frame_space_succeeds)
  show ?thesis
  proof (cases "extrude_mode self = NORMAL")
    case True
    with assms obtain vec where "scale_vec vector_in scale = Inr vec" by (auto simp: fd)
    then show ?thesis
      using True
      by (simp add: transform_face_def fd S Si bmesh_ops_scale_def bmesh_ops_translate_def
          bmesh_ops_transform_def Let_def)
  next
    case False
    then show ?thesis
      by (simp add: transform_face_def fd S Si bmesh_ops_transform_def Let_def)
  qed
qed

lemma transform_loop_succeeds:
  assumes "\<And>fd. fd \<in> set fds \<Longrightarrow>
     extrude_mode self = NORMAL \<longrightarrow> (\<exists>vec. scale_vec vector_in (fst (snd (snd fd))) = Inr vec)"
  shows "\<exists>st'. transform_loop self vector_in nrm collect fds st = Inr st'"
  using assms
proof (induction fds arbitrary: st)
  case Nil
  then show ?case by simp
next
  case (Cons fd fds)
  have "fd \<in> set (fd # fds)" by simp
  from transform_face_succeeds [OF Cons.prems [OF this], of nrm "fst st"]
  obtain bm where "transform_face self vector_in nrm (fst st) fd = Inr bm" by blast
  moreover from Cons.IH Cons.prems
  have "\<exists>st'. transform_loop self vector_in nrm collect fds
          (bm, if collect then snd st @ [f_verts (bm_faces bm ! fst fd)] else snd st) = Inr st'"
    by simp
  ultimately show ?case by simp
qed

lemma zip4_scale:
  "(c, h, s, m) \<in> set (zip caps (zip hs (zip ss ms))) \<Longrightarrow> s \<in> set ss"
  by (meson set_zip_leftD set_zip_rightD)

lemma zip5_scale:
  "(c, k, h, s, m) \<in> set (zip caps (zip masks (zip hs (zip ss ms)))) \<Longrightarrow> s \<in> set ss"
  by (meson set_zip_leftD set_zip_rightD)

lemma face_data_scales:
  assumes "fd \<in> set (face_data self caps masks hs ss ms)"
  shows "fst (snd (snd fd)) \<in> set ss"
proof -
  obtain c h s m where fd: "fd = (c, h, s, m)" by (cases fd) auto
  show ?thesis
  proof (cases "mask_mode self = NOEXTRUDE")
    case True
    with assms show ?thesis by (auto simp: face_data_def fd dest: zip4_scale)
  next
    case False
    with assms show ?thesis by (auto simp: face_data_def fd dest: zip5_scale)
  qed
qed

lemma mask_value_succeeds:
  "f_mask f = MASK \<or> f_mask f = OUT \<or> f_mask f = IN \<Longrightarrow>
     \<exists>y. mask_value out_type f = Inr y"
  by (auto simp: mask_value_def MASK_MEANING_def MASK_def OUT_def IN_def)

text \<open>
  One mesh of the batch is processed without an error when its faces refer to vertices
  of the mesh, no parameter list is empty (unless there is no face) and, in NORMAL mode,
  the scales are of the kind that the Scale input announces.
\<close>

lemma process_item_succeeds:
  assumes lists: "faces = [] \<or> (masks0 \<noteq> [] \<and> heights0 \<noteq> [] \<and> scales0 \<noteq> [] \<and> matrixes0 \<noteq> [])"
    and edges: "list_all (\<lambda>e. fst e < length vertices \<and> snd e < length vertices) edges"
    and topo: "list_all (list_all (\<lambda>v. v < length vertices)) faces"
    and kinds: "extrude_mode self = NORMAL \<longrightarrow>
                  (\<forall>s \<in> set scales0. \<exists>vec. scale_vec vector_in s = Inr vec)"
  shows "\<exists>r. process_item self vector_in nrm outs vertices edges faces masks0 heights0 scales0
                matrixes0 = Inr r"
proof -
  from lists obtain heights where h: "fullList heights0 (length faces) = Inr heights"
    using fullList_succeeds [of heights0 "length faces"] by auto
  from lists obtain scales where s: "fullList scales0 (length faces) = Inr scales"
    and ss: "set scales \<subseteq> set scales0"
    using fullList_succeeds [of scales0 "length faces"] by auto
  from lists obtain matrixes where m: "fullList matrixes0 (length faces) = Inr matrixes"
    using fullList_succeeds [of matrixes0 "length faces"] by auto
  from lists obtain masks where k: "fullList masks0 (length faces) = Inr masks"
    using fullList_succeeds [of masks0 "length faces"] by auto
  have rl: "resolve_lists (length faces) masks0 heights0 scales0 matrixes0
      = Inr (masks, heights, scales, matrixes)"
    by (simp add: resolve_lists_def h s m k)
  obtain bm0 where tm: "tagged_mesh vertices edges faces masks = Inr bm0"
    using edges topo by (simp add: tagged_mesh_def bmesh_from_pydata_def)
  note t = tagged_mesh_Inr [OF tm]
  note rr = resolve_lists_Inr [OF rl]
  define sel where "sel = faces_to_extrude self bm0 masks"
  define ex where "ex = extrude_discrete_faces bm0 sel"
  define fd where "fd = face_data self (snd ex) masks heights scales matrixes"
  let ?collect = "ExtrudedPolys_linked outs \<or> OtherPolys_linked outs"
  have "\<exists>st'. transform_loop self vector_in nrm ?collect fd (fst ex, []) = Inr st'"
  proof (rule transform_loop_succeeds)
    fix d assume "d \<in> set fd"
    then have "fst (snd (snd d)) \<in> set scales0"
      unfolding fd_def using face_data_scales ss by blast
    with kinds show "extrude_mode self = NORMAL \<longrightarrow>
        (\<exists>vec. scale_vec vector_in (fst (snd (snd d))) = Inr vec)" by blast
  qed
  then obtain bm extruded where
    tl: "transform_loop self vector_in nrm ?collect fd (fst ex, []) = Inr (bm, extruded)"
    by (metis surj_pair)
  from transform_loop_frame [OF tl] have bf: "bm_faces bm = bm_faces (fst ex)" by simp
  have selsub: "set sel \<subseteq> {0..<length (bm_faces bm0)}"
    unfolding sel_def by (rule set_faces_to_extrude)
  have valid: "\<forall>f \<in> set (bm_faces bm0). \<forall>v \<in> set (f_verts f). v < length (bm_verts bm0)"
  proof (intro ballI)
    fix f v assume "f \<in> set (bm_faces bm0)" "v \<in> set (f_verts f)"
    then have "f_verts f \<in> set faces" using t(2) by (metis image_eqI set_map)
    with t(4) \<open>v \<in> set (f_verts f)\<close> show "v < length (bm_verts bm0)" by (simp add: t(1))
  qed
  note e = extrude_discrete_faces_props [OF selsub valid ex_def]
  have tags: "f_mask f = MASK \<or> f_mask f = OUT" if "f \<in> set (bm_faces (fst ex))" for f
  proof -
    from that have "f_mask f \<in> set (map f_mask (bm_faces (fst ex)))" by simp
    then obtain i where i: "i \<in> set (face_origins (map f_verts (bm_faces bm0)) sel)"
      "f_mask f = f_mask (bm_faces bm0 ! i)"
      unfolding e(8) by auto
    from i(1) selsub have "i < length faces"
      by (auto simp: face_origins_def t(3))
    from t(5) [OF this] i(2) show ?thesis by auto
  qed
  have "\<exists>m. get_out_mask self bm (snd ex) = Inr m"
    unfolding get_out_mask_def bf
  proof (rule emap_succeeds, rule mask_value_succeeds)
    fix f assume "f \<in> set (tag_in (bm_faces (fst ex)) (snd ex))"
    then obtain j where j: "j < length (bm_faces (fst ex))"
      "f = tag_in (bm_faces (fst ex)) (snd ex) ! j"
      by (auto simp: in_set_conv_nth length_tag_in)
    from tags [of "bm_faces (fst ex) ! j"] j(1)
    show "f_mask f = MASK \<or> f_mask f = OUT \<or> f_mask f = IN"
      by (auto simp: j(2) tag_in_nth)
  qed
  then obtain mo where mo: "get_out_mask self bm (snd ex) = Inr mo" by blast
  show ?thesis
    by (simp add: process_item_def rl tm Let_def sel_def [symmetric] ex_def [symmetric]
        fd_def [symmetric] tl mo)
qed

section \<open>Single precision\<close>






lemma round_half_even_close: "\<bar>of_int (round_half_even y) - y\<bar> \<le> 1 / 2"
  unfolding round_half_even_def Let_def by (auto simp: abs_if) linarith+

lemma single_precision_close:
  "\<bar>single_precision x - x\<bar> \<le> 2 powi single_exponent x / 2"
proof (cases "x = 0")
  case True
  then show ?thesis by (simp add: single_precision_def)
next
  case False
  define q :: real where "q = 2 powi single_exponent x"
  have q: "0 < q" by (simp add: q_def)
  define n where "n = round_half_even (x / q)"
  have "of_int n * q - x = (of_int n - x / q) * q"
    using q by (simp add: left_diff_distrib)
  then have "\<bar>of_int n * q - x\<bar> = \<bar>of_int n - x / q\<bar> * q"
    using q by (simp add: abs_mult)
  also have "\<dots> \<le> 1 / 2 * q"
    using round_half_even_close [of "x / q"] q
    unfolding n_def by (intro mult_right_mono) simp_all
  finally show ?thesis using False by (simp add: single_precision_def q_def n_def)
qed







section \<open>The claims\<close>





text \<open>
  Claim C3, as amended. When the ExtrudedPolys output is consumed, the list holds the
  vertex-index loops of the caps that went through the transform loop, in extrusion order:
  in NOEXTRUDE mode these are all the caps, one per extruded face; in NOTRANSFORM mode
  they are the caps of the faces whose resolved mask value is truthy.
\<close>

theorem extruded_polys_listed:
  assumes r: "process_item self vector_in nrm outs vertices edges faces masks0 heights0 scales0
             matrixes0 = Inr r"
    and rl: "resolve_lists (length faces) masks0 heights0 scales0 matrixes0
             = Inr (masks, heights, scales, matrixes)"
    and tm: "tagged_mesh vertices edges faces masks = Inr bm0"
    and sel: "sel = faces_to_extrude self bm0 masks"
    and caps: "caps = snd (extrude_discrete_faces bm0 sel)"
    and linked: "ExtrudedPolys_linked outs"
  shows "(mask_mode self = NOEXTRUDE \<longrightarrow>
            length caps = length sel
          \<and> new_extruded_faces r = map (\<lambda>c. new_faces r ! c) caps)
     \<and> (mask_mode self = NOTRANSFORM \<longrightarrow>
            length caps = length faces
          \<and> new_extruded_faces r
              = map (\<lambda>i. new_faces r ! (caps ! i)) (filter (\<lambda>i. masks ! i \<noteq> 0) [0..<length faces]))"
proof -
  define ex where "ex = extrude_discrete_faces bm0 sel"
  have caps': "caps = snd ex" by (simp add: caps ex_def)
  define fd where "fd = face_data self caps masks heights scales matrixes"
  note f = item_facts [OF r rl tm sel ex_def fd_def [unfolded caps']]
  note t = tagged_mesh_Inr [OF tm]
  note rr = resolve_lists_Inr [OF rl]
  have lc: "length caps = length sel" using f(5) by (simp add: caps')
  have ls: "length sel \<le> length faces"
    unfolding sel using length_faces_to_extrude [of self bm0 masks] by (simp add: t(3))
  have e: "new_extruded_faces r = map (\<lambda>d. new_faces r ! fst d) fd"
    using f(2) linked by simp
  have A: "new_extruded_faces r = map (\<lambda>c. new_faces r ! c) caps"
    if mode: "mask_mode self = NOEXTRUDE"
  proof -
    have "fd = map (\<lambda>j. (caps ! j, heights ! j, scales ! j, matrixes ! j)) [0..<length caps]"
      unfolding fd_def using mode rr lc ls by (intro face_data_NOEXTRUDE) simp_all
    then have "new_extruded_faces r = map (\<lambda>j. new_faces r ! (caps ! j)) [0..<length caps]"
      by (simp add: e comp_def)
    also have "\<dots> = map (\<lambda>c. new_faces r ! c) (map (\<lambda>j. caps ! j) [0..<length caps])"
      by (simp add: comp_def)
    finally show ?thesis by (simp add: map_nth)
  qed
  have B: "length caps = length faces \<and> new_extruded_faces r
              = map (\<lambda>i. new_faces r ! (caps ! i)) (filter (\<lambda>i. masks ! i \<noteq> 0) [0..<length faces])"
    if mode: "mask_mode self = NOTRANSFORM"
  proof -
    have s: "sel = [0..<length faces]"
      unfolding sel using mode by (simp add: faces_to_extrude_NOTRANSFORM t(3))
    then have lcf: "length caps = length faces" using lc by simp
    have "fd = map (\<lambda>j. (caps ! j, heights ! j, scales ! j, matrixes ! j))
                   (filter (\<lambda>j. masks ! j \<noteq> 0) [0..<length caps])"
      unfolding fd_def using mode rr lcf by (intro face_data_NOTRANSFORM) simp_all
    then show ?thesis by (simp add: e comp_def lcf)
  qed
  from A B lc show ?thesis by blast
qed

theorem extruded_polys_listed_witness:
  "process_item (ex_node NOTRANSFORM) False ex_normal ex_outs ex_vertices [] ex_faces
      [1, 0] [1] [Num 2] [Matrix_identity] = Inr ex_result_notransform
   \<and> resolve_lists (length ex_faces) [1, 0] [1] [Num 2] [Matrix_identity]
       = Inr ([1, 0], [1, 1], [Num 2, Num 2], [Matrix_identity, Matrix_identity])
   \<and> tagged_mesh ex_vertices [] ex_faces [1, 0] = Inr ex_bm0
   \<and> faces_to_extrude (ex_node NOTRANSFORM) ex_bm0 [1, 0] = [0, 1]
   \<and> snd (extrude_discrete_faces ex_bm0 [0, 1]) = [0, 4]
   \<and> ExtrudedPolys_linked ex_outs
   \<and> mask_mode (ex_node NOTRANSFORM) = NOTRANSFORM
   \<and> new_extruded_faces ex_result_notransform = [new_faces ex_result_notransform ! 0]
   \<and> process_item (ex_node NOEXTRUDE) False ex_normal ex_outs ex_vertices [] ex_faces
      [1, 0] [0] [Num 1] [Matrix_identity] = Inr ex_result_noextrude
   \<and> mask_mode (ex_node NOEXTRUDE) = NOEXTRUDE
   \<and> new_extruded_faces ex_result_noextrude = [new_faces ex_result_noextrude ! 1]"
proof -
  have selB: "[0, Suc 0] = faces_to_extrude (ex_node NOTRANSFORM) ex_bm0 [1, 0]"
    by (simp add: ex_sel_notransform)
  have capsB: "[0, 4] = snd (extrude_discrete_faces ex_bm0 [0, Suc 0])"
    by (simp add: ex_caps_notransform)
  have selA: "[0] = faces_to_extrude (ex_node NOEXTRUDE) ex_bm0 [1, 0]"
    by (simp add: ex_sel_noextrude)
  have capsA: "[Suc 0] = snd (extrude_discrete_faces ex_bm0 [0])"
    by (simp add: ex_caps_noextrude)
  have l: "ExtrudedPolys_linked ex_outs" by (simp add: ex_outs_def)
  have modeB: "mask_mode (ex_node NOTRANSFORM) = NOTRANSFORM" by (simp add: ex_node_def)
  have modeA: "mask_mode (ex_node NOEXTRUDE) = NOEXTRUDE" by (simp add: ex_node_def)
  have len: "length ex_faces = Suc (Suc 0)" by (simp add: ex_faces_def)
  from extruded_polys_listed [OF ex_process_notransform ex_resolve_notransform ex_tagged
      selB capsB l] modeB
  have B: "new_extruded_faces ex_result_notransform = [new_faces ex_result_notransform ! 0]"
    by (simp add: len)
  from extruded_polys_listed [OF ex_process_noextrude ex_resolve_noextrude ex_tagged
      selA capsA l] modeA
  have A: "new_extruded_faces ex_result_noextrude = [new_faces ex_result_noextrude ! 1]"
    by simp
  from A B show ?thesis
    using ex_process_notransform ex_resolve_notransform ex_tagged l modeA modeB
      ex_process_noextrude
    by (simp add: ex_sel_notransform ex_caps_notransform)
qed

theorem extruded_polys_counterexample:
  "process_item (ex_node NOTRANSFORM) False ex_normal ex_outs ex_vertices [] ex_faces
      [1, 0] [1] [Num 2] [Matrix_identity] = Inr ex_result_notransform
   \<and> ExtrudedPolys_linked ex_outs
   \<and> snd (extrude_discrete_faces ex_bm0 (faces_to_extrude (ex_node NOTRANSFORM) ex_bm0 [1, 0]))
       = [0, 4]
   \<and> map (\<lambda>c. new_faces ex_result_notransform ! c) [0, 4] = [[4, 5, 6], [7, 8, 9]]
   \<and> new_extruded_faces ex_result_notransform = [[4, 5, 6]]
   \<and> new_extruded_faces ex_result_notransform
       \<noteq> map (\<lambda>c. new_faces ex_result_notransform ! c)
            (snd (extrude_discrete_faces ex_bm0
                    (faces_to_extrude (ex_node NOTRANSFORM) ex_bm0 [1, 0])))"
  using ex_process_notransform
  by (simp add: ex_sel_notransform ex_caps_notransform ex_outs_def ex_result_notransform_def)

text \<open>
  Claim C4. When both the ExtrudedPolys and the OtherPolys outputs are consumed, the
  extruded faces and the other faces together are the faces of the final mesh, and no
  face is in both lists.
\<close>

theorem extruded_other_partition:
  assumes r: "process_item self vector_in nrm outs vertices edges faces masks0 heights0 scales0
             matrixes0 = Inr r"
    and linked: "ExtrudedPolys_linked outs" "OtherPolys_linked outs"
  shows "set (new_extruded_faces r) \<union> set (new_other_faces r) = set (new_faces r)
     \<and> set (new_extruded_faces r) \<inter> set (new_other_faces r) = {}"
proof -
  from r obtain masks heights scales matrixes bm0 where
    rl: "resolve_lists (length faces) masks0 heights0 scales0 matrixes0
       = Inr (masks, heights, scales, matrixes)"
    and tm: "tagged_mesh vertices edges faces masks = Inr bm0"
    by (rule item_resolved)
  define sel where "sel = faces_to_extrude self bm0 masks"
  define ex where "ex = extrude_discrete_faces bm0 sel"
  define fd where "fd = face_data self (snd ex) masks heights scales matrixes"
  note f = item_facts [OF r rl tm sel_def ex_def fd_def]
  have "new_faces r ! fst d \<in> set (new_faces r)" if "d \<in> set fd" for d
  proof -
    from f(4) [OF that] obtain k where "k < length sel" "fst d = snd ex ! k" by blast
    with f(7) show ?thesis by simp
  qed
  then have sub: "set (new_extruded_faces r) \<subseteq> set (new_faces r)"
    using f(2) linked by auto
  have other: "new_other_faces r = filter (\<lambda>f. f \<notin> set (new_extruded_faces r)) (new_faces r)"
    using f(16) linked by simp
  from sub show ?thesis unfolding other by auto
qed

theorem extruded_other_partition_witness:
  "process_item (ex_node NOEXTRUDE) False ex_normal ex_outs ex_vertices [] ex_faces
      [1, 0] [0] [Num 1] [Matrix_identity] = Inr ex_result_noextrude
   \<and> ExtrudedPolys_linked ex_outs \<and> OtherPolys_linked ex_outs
   \<and> set (new_extruded_faces ex_result_noextrude) \<union> set (new_other_faces ex_result_noextrude)
       = set (new_faces ex_result_noextrude)
   \<and> set (new_extruded_faces ex_result_noextrude) \<inter> set (new_other_faces ex_result_noextrude)
       = {}"
proof -
  have l: "ExtrudedPolys_linked ex_outs" "OtherPolys_linked ex_outs"
    by (simp_all add: ex_outs_def)
  from extruded_other_partition [OF ex_process_noextrude l]
  show ?thesis using l ex_process_noextrude by simp
qed

text \<open>
  Claim C5. When the Mask output is consumed, the output mask has one entry per face of
  the final mesh, every entry is 0 or 1, and an entry is 1 exactly when the name of the
  face's tag is in \<^verbatim>\<open>mask_out_type\<close>; the tag is IN for a cap returned by the extrusion,
  MASK for any other face that comes from an input face whose resolved mask value is 0,
  and OUT otherwise.
\<close>

theorem output_mask:
  assumes r: "process_item self vector_in nrm outs vertices edges faces masks0 heights0 scales0
             matrixes0 = Inr r"
    and rl: "resolve_lists (length faces) masks0 heights0 scales0 matrixes0
             = Inr (masks, heights, scales, matrixes)"
    and tm: "tagged_mesh vertices edges faces masks = Inr bm0"
    and sel: "sel = faces_to_extrude self bm0 masks"
    and caps: "caps = snd (extrude_discrete_faces bm0 sel)"
    and need: "need_mask_out outs"
  shows "\<exists>m. new_mask r = Some m \<and> length m = length (new_faces r)
     \<and> length (face_origins faces sel) = length (new_faces r)
     \<and> (\<forall>j<length m. (m ! j = 0 \<or> m ! j = 1)
          \<and> (\<exists>name. MASK_MEANING (if j \<in> set caps then IN
                                   else if masks ! (face_origins faces sel ! j) = 0 then MASK
                                   else OUT) = Some name
                \<and> (m ! j = 1 \<longleftrightarrow> name \<in> mask_out_type self)))"
proof -
  define ex where "ex = extrude_discrete_faces bm0 sel"
  have caps': "caps = snd ex" by (simp add: caps ex_def)
  define fd where "fd = face_data self caps masks heights scales matrixes"
  note f = item_facts [OF r rl tm sel ex_def fd_def [unfolded caps']]
  let ?fs = "bm_faces (fst ex)"
  from f(15) [OF need] obtain m where
    m: "emap (mask_value (mask_out_type self)) (tag_in ?fs caps) = Inr m"
    by (auto simp: caps')
  then have nm: "new_mask r = Some m" using f(14) need by (simp add: caps')
  from emap_Inr [OF m] have
    lm: "length m = length ?fs" and
    mj: "\<And>j. j < length ?fs \<Longrightarrow> mask_value (mask_out_type self) (tag_in ?fs caps ! j) = Inr (m ! j)"
    by (simp_all add: length_tag_in)
  have lf: "length (new_faces r) = length ?fs" by (simp add: f(1))
  have lo: "length (face_origins faces sel) = length ?fs"
    using arg_cong [OF f(13), of length] by simp
  have tagj: "f_mask (tag_in ?fs caps ! j) =
      (if j \<in> set caps then IN
       else if masks ! (face_origins faces sel ! j) = 0 then MASK else OUT)"
    if j: "j < length ?fs" for j
  proof -
    have "f_mask (?fs ! j) = map f_mask ?fs ! j" using j by simp
    also have "\<dots> = (if masks ! (face_origins faces sel ! j) \<noteq> 0 then OUT else MASK)"
      unfolding f(13) using j lo by simp
    finally show ?thesis using j by (simp add: tag_in_nth)
  qed
  have "(m ! j = 0 \<or> m ! j = 1)
          \<and> (\<exists>name. MASK_MEANING (if j \<in> set caps then IN
                                   else if masks ! (face_origins faces sel ! j) = 0 then MASK
                                   else OUT) = Some name
                \<and> (m ! j = 1 \<longleftrightarrow> name \<in> mask_out_type self))"
    if j: "j < length m" for j
  proof -
    from j lm have j': "j < length ?fs" by simp
    from mask_value_Inr [OF mj [OF j']] obtain name where
      "MASK_MEANING (f_mask (tag_in ?fs caps ! j)) = Some name"
      "m ! j = (if name \<in> mask_out_type self then 1 else 0)"
      by blast
    then show ?thesis unfolding tagj [OF j'] by auto
  qed
  with nm lm lf lo show ?thesis by simp
qed

theorem output_mask_witness:
  "process_item (ex_node NOEXTRUDE) False ex_normal ex_outs ex_vertices [] ex_faces
      [1, 0] [0] [Num 1] [Matrix_identity] = Inr ex_result_noextrude
   \<and> resolve_lists (length ex_faces) [1, 0] [0] [Num 1] [Matrix_identity]
       = Inr ([1, 0], [0, 0], [Num 1, Num 1], [Matrix_identity, Matrix_identity])
   \<and> tagged_mesh ex_vertices [] ex_faces [1, 0] = Inr ex_bm0
   \<and> faces_to_extrude (ex_node NOEXTRUDE) ex_bm0 [1, 0] = [0]
   \<and> snd (extrude_discrete_faces ex_bm0 [0]) = [1]
   \<and> need_mask_out ex_outs
   \<and> face_origins ex_faces [0] = [1, 0, 0, 0, 0]
   \<and> new_mask ex_result_noextrude = Some [0, 0, 1, 1, 1]
   \<and> length [0, 0, 1, 1, 1 :: int] = length (new_faces ex_result_noextrude)"
proof -
  have sel: "[0] = faces_to_extrude (ex_node NOEXTRUDE) ex_bm0 [1, 0]"
    by (simp add: ex_sel_noextrude)
  have caps: "[Suc 0] = snd (extrude_discrete_faces ex_bm0 [0])"
    by (simp add: ex_caps_noextrude)
  have need: "need_mask_out ex_outs" by (simp add: need_mask_out_def ex_outs_def)
  have fo: "face_origins ex_faces [0] = [1, 0, 0, 0, 0]"
    by (simp add: face_origins_def ex_faces_def)
  from output_mask [OF ex_process_noextrude ex_resolve_noextrude ex_tagged sel caps need]
  show ?thesis
    using ex_process_noextrude ex_resolve_noextrude ex_tagged need fo
    by (simp add: ex_sel_noextrude ex_caps_noextrude ex_result_noextrude_def)
qed




text \<open>
  Claim C7. Mask broadcasting: a non-empty mask shorter than the face count is resolved to
  the mask followed by copies of its last element, up to the face count; with 2 faces
  and the mask [1] the resolved mask is [1, 1].
\<close>

theorem mask_broadcast:
  "(masks \<noteq> [] \<and> length masks < face_count \<longrightarrow>
      fullList masks face_count = Inr (masks @ replicate (face_count - length masks) (last masks))
      \<and> length (masks @ replicate (face_count - length masks) (last masks)) = face_count
      \<and> (\<forall>resolved heights' scales' matrixes'.
            resolve_lists face_count masks heights scales matrixes
              = Inr (resolved, heights', scales', matrixes') \<longrightarrow>
            resolved = masks @ replicate (face_count - length masks) (last masks)))
   \<and> fullList [1 :: int] 2 = Inr [1, 1]
   \<and> fullList [1 :: int] 2 \<noteq> Inr [1, 0]"
proof -
  have "resolved = masks @ replicate (face_count - length masks) (last masks)"
    if "length masks < face_count"
      "resolve_lists face_count masks heights scales matrixes
         = Inr (resolved, heights', scales', matrixes')"
    for resolved heights' scales' matrixes'
    using fullList_Inr(2) [OF resolve_lists_Inr(1) [OF that(2)]] that(1) by simp
  moreover have "fullList [1 :: int] 2 = Inr [1, 1]" "fullList [1 :: int] 2 \<noteq> Inr [1, 0]"
    by (simp_all add: fullList_def numeral_2_eq_2)
  moreover have "masks \<noteq> [] \<and> length masks < face_count \<longrightarrow>
      fullList masks face_count = Inr (masks @ replicate (face_count - length masks) (last masks))
      \<and> length (masks @ replicate (face_count - length masks) (last masks)) = face_count"
    by (simp add: fullList_def)
  ultimately show ?thesis by blast
qed

theorem mask_broadcast_witness:
  "[0, 1 :: int] \<noteq> [] \<and> length [0, 1 :: int] < 4 \<and> fullList [0, 1 :: int] 4 = Inr [0, 1, 1, 1]
   \<and> resolve_lists (length ex_faces) [1] [0] [Num 1] [Matrix_identity]
       = Inr ([1, 1], [0, 0], [Num 1, Num 1], [Matrix_identity, Matrix_identity])"
  using mask_broadcast [of "[0, 1 :: int]" 4]
  by (simp add: numeral_eq_Suc resolve_lists_def fullList_def ex_faces_def)

text \<open>
  Claim C9. If the Vertices input or the Polygons input is not linked, or no output is
  linked, the node returns without a result and without an error, whatever the modes and
  the other inputs are.
\<close>

theorem process_noop:
  "Vertices_in ins = None \<or> Polygons_in ins = None \<or> \<not> any_linked outs \<Longrightarrow>
     process self nrm ins outs = Inr None"
  by (auto simp: process_def split: option.splits)

theorem process_noop_witness:
  "\<not> any_linked \<lparr>Vertices_linked = False, Edges_linked = False, Polygons_linked = False,
       ExtrudedPolys_linked = False, OtherPolys_linked = False, Mask_linked = Some False\<rparr>
   \<and> process \<lparr>extrude_mode = MATRIX, mask_mode = NOTRANSFORM, mask_out_type = {''out''},
          height_prop = 0, scale_prop = 1\<rparr> (\<lambda>cs. (0, 0, 1))
        \<lparr>Vertices_in = Some [[(0, 0, 0), (1, 0, 0), (0, 1, 0)]], Edges_in = None,
          Polygons_in = Some [[[0, 1, 2]]], Mask_in = None, Height_in = None,
          Scale_in = None, Matrix_in = None\<rparr>
        \<lparr>Vertices_linked = False, Edges_linked = False, Polygons_linked = False,
          ExtrudedPolys_linked = False, OtherPolys_linked = False, Mask_linked = Some False\<rparr>
      = Inr None"
  using process_noop [of
      "\<lparr>Vertices_in = Some [[(0, 0, 0), (1, 0, 0), (0, 1, 0)]], Edges_in = None,
          Polygons_in = Some [[[0, 1, 2]]], Mask_in = None, Height_in = None,
          Scale_in = None, Matrix_in = None\<rparr>"
      "\<lparr>Vertices_linked = False, Edges_linked = False, Polygons_linked = False,
          ExtrudedPolys_linked = False, OtherPolys_linked = False, Mask_linked = Some False\<rparr>"
      "\<lparr>extrude_mode = MATRIX, mask_mode = NOTRANSFORM, mask_out_type = {''out''},
          height_prop = 0, scale_prop = 1\<rparr>" "\<lambda>cs. (0, 0, 1)"]
  by (simp add: any_linked_def)

text \<open>
  Claim C10. In the branch taken when the normal has a non-zero x or y, the vector
  (-normal.y, normal.x, 0) is not the zero vector and has a non-zero length, so that its
  normalisation divides by a non-zero number and gives a unit vector; every normal with
  x = 0 and y = 0, the zero vector among them, takes the guarded branch, which gives the
  identity for z >= 0 and the rotation by pi about X for z < 0.
\<close>

theorem frame_normalisation_total:
  "(vx n \<noteq> 0 \<or> vy n \<noteq> 0 \<longrightarrow>
      (vy n * (- 1), vx n, 0) \<noteq> (0, 0, 0)
      \<and> vlength (vy n * (- 1), vx n, 0) \<noteq> 0
      \<and> x_axis_of n = vscale (vy n * (- 1), vx n, 0) (1 / vlength (vy n * (- 1), vx n, 0))
      \<and> vlength (x_axis_of n) = 1
      \<and> frame_rotation n = to_4x4 (Matrix_zip (x_axis_of n) (y_axis_of n) n))
   \<and> (vx n = 0 \<and> vy n = 0 \<longrightarrow>
      frame_rotation n = (if vz n \<ge> 0 then Matrix_identity else Matrix_Rotation_X pi))
   \<and> frame_rotation (0, 0, 0) = Matrix_identity"
proof -
  have "frame_rotation (0, 0, 0) = Matrix_identity"
    by (simp add: frame_rotation_def)
  moreover have "vx n = 0 \<and> vy n = 0 \<longrightarrow>
      frame_rotation n = (if vz n \<ge> 0 then Matrix_identity else Matrix_Rotation_X pi)"
    by (simp add: frame_rotation_def)
  moreover have "(vy n * (- 1), vx n, 0) \<noteq> (0, 0, 0)
      \<and> vlength (vy n * (- 1), vx n, 0) \<noteq> 0
      \<and> x_axis_of n = vscale (vy n * (- 1), vx n, 0) (1 / vlength (vy n * (- 1), vx n, 0))
      \<and> vlength (x_axis_of n) = 1
      \<and> frame_rotation n = to_4x4 (Matrix_zip (x_axis_of n) (y_axis_of n) n)"
    if h: "vx n \<noteq> 0 \<or> vy n \<noteq> 0"
  proof -
    let ?u = "(vy n * (- 1), vx n, 0 :: real)"
    have u: "?u \<noteq> (0, 0, 0)" using h by auto
    then have l: "vlength ?u \<noteq> 0" using vlength_pos_iff by blast
    have x: "x_axis_of n = vscale ?u (1 / vlength ?u)"
      using l by (simp add: x_axis_of_def normalized_def)
    have "dot (vscale ?u (1 / vlength ?u)) (vscale ?u (1 / vlength ?u))
        = dot ?u ?u * (1 / vlength ?u) * (1 / vlength ?u)"
      by (simp only: dot_vscale dot_vscale_left)
    also have "\<dots> = (vlength ?u)^2 * (1 / vlength ?u) * (1 / vlength ?u)"
      by (simp only: dot_self_vlength)
    also have "\<dots> = 1" using l by (simp add: power2_eq_square)
    finally have "vlength (x_axis_of n) = 1"
      by (simp add: x vlength_def)
    moreover have "frame_rotation n = to_4x4 (Matrix_zip (x_axis_of n) (y_axis_of n) n)"
      using h by (auto simp: frame_rotation_def)
    ultimately show ?thesis using u l x by simp
  qed
  ultimately show ?thesis by blast
qed

theorem frame_normalisation_total_witness:
  "vx (3, 4, 0) \<noteq> 0 \<and> vlength (x_axis_of (3, 4, 0)) = 1
   \<and> x_axis_of (3, 4, 0) = (- 4 / 5, 3 / 5, 0)
   \<and> vx (0, 0, - 1) = 0 \<and> vy (0, 0, - 1) = 0
   \<and> frame_rotation (0, 0, - 1) = Matrix_Rotation_X pi"
proof -
  have s: "sqrt 25 = 5" using real_sqrt_abs [of 5] by simp
  show ?thesis
    using frame_normalisation_total [of "(3, 4, 0)"] frame_normalisation_total [of "(0, 0, - 1)"]
    by (simp add: vlength_def s)
qed

end
